theory Spec2Isabelle
  imports Complex_Main "HOL-Library.Monad_Syntax"
begin

section \<open>Python values used by the metrics code\<close>

text \<open>
  Durations and clock readings are Python floats; they are idealised as reals.
  An exception raised inside a computation is the value \<open>None\<close> of the option
  monad; every handler of the service turns it into a 500 response.
\<close>

text \<open>
  The subscript \<open>xs[i]\<close> of a list: an index from \<open>-len(xs)\<close> up to \<open>-1\<close> is
  counted back from the end, and an index outside \<open>-len(xs) .. len(xs) - 1\<close> is an
  IndexError.
\<close>

definition py_getitem :: "'a list \<Rightarrow> int \<Rightarrow> 'a option" where
  "py_getitem xs i =
     (if 0 \<le> i \<and> i < int (length xs) then Some (xs ! nat i)
      else if - int (length xs) \<le> i \<and> i < 0 then Some (xs ! nat (int (length xs) + i))
      else None)"

text \<open>\<open>int(x)\<close> on a float truncates toward zero.\<close>

definition py_int_of_float :: "real \<Rightarrow> int" where
  "py_int_of_float x = (if 0 \<le> x then \<lfloor>x\<rfloor> else \<lceil>x\<rceil>)"

text \<open>\<open>min(xs)\<close> and \<open>max(xs)\<close> raise on an empty list.\<close>

fun py_min :: "real list \<Rightarrow> real option" where
  "py_min [] = None"
| "py_min (x # xs) = Some (fold min xs x)"

fun py_max :: "real list \<Rightarrow> real option" where
  "py_max [] = None"
| "py_max (x # xs) = Some (fold max xs x)"

text \<open>
  What the bare call \<open>request.get_json()\<close> does. For a request that carries no JSON
  body at all (no JSON content type, or a body that does not parse) it raises; for a
  JSON body it returns the parsed value, \<open>None\<close> for the JSON text \<open>null\<close>.
\<close>

datatype jval =
    JNull
  | JBool bool
  | JInt int
  | JFloat real
  | JStr string
  | JArr "jval list"
  | JObj "(string \<times> jval) list"

datatype get_json_result = JsonRaises | JsonReturns jval

fun truthy :: "jval \<Rightarrow> bool" where
  "truthy JNull = False"
| "truthy (JBool b) = b"
| "truthy (JInt i) = (i \<noteq> 0)"
| "truthy (JFloat r) = (r \<noteq> 0)"
| "truthy (JStr s) = (s \<noteq> [])"
| "truthy (JArr xs) = (xs \<noteq> [])"
| "truthy (JObj kvs) = (kvs \<noteq> [])"

text \<open>
  \<open>int(v)\<close> on a JSON value. How Python reads an integer out of a string is a
  parameter \<open>int_of_str\<close> (\<open>None\<close> where it raises ValueError); \<open>None\<close>, lists and
  dicts raise TypeError.
\<close>

fun py_int :: "(string \<Rightarrow> int option) \<Rightarrow> jval \<Rightarrow> int option" where
  "py_int int_of_str JNull = None"
| "py_int int_of_str (JBool b) = Some (if b then 1 else 0)"
| "py_int int_of_str (JInt i) = Some i"
| "py_int int_of_str (JFloat r) = Some (py_int_of_float r)"
| "py_int int_of_str (JStr s) = int_of_str s"
| "py_int int_of_str (JArr xs) = None"
| "py_int int_of_str (JObj kvs) = None"

section \<open>Server: the process-wide metrics store\<close>

text \<open>
  \<open>_scalability_metrics\<close>. The dict \<open>response_times\<close> is an association list in
  insertion order with distinct keys.
\<close>

record metrics =
  response_times :: "(string \<times> real list) list"
  concurrent_requests :: int
  total_requests :: int
  failed_requests :: int
  start_time :: "real option"
  test_active :: bool

definition initial_metrics :: metrics where
  "initial_metrics =
     \<lparr>response_times = [], concurrent_requests = 0, total_requests = 0,
      failed_requests = 0, start_time = None, test_active = False\<rparr>"

text \<open>\<open>response_times[endpoint].append(response_time)\<close> on the defaultdict.\<close>

fun append_time :: "string \<Rightarrow> real \<Rightarrow> (string \<times> real list) list \<Rightarrow> (string \<times> real list) list" where
  "append_time e t [] = [(e, [t])]"
| "append_time e t ((k, ts) # rest) =
     (if k = e then (k, ts @ [t]) # rest else (k, ts) # append_time e t rest)"

text \<open>The block of \<open>after_request\<close> that runs under \<open>_metrics_lock\<close>.\<close>

definition record_sample :: "string \<Rightarrow> real \<Rightarrow> int \<Rightarrow> metrics \<Rightarrow> metrics" where
  "record_sample endpoint response_time status_code s =
     (let s1 = s\<lparr>response_times := append_time endpoint response_time (response_times s),
                 total_requests := total_requests s + 1\<rparr>
      in if status_code \<ge> 400 then s1\<lparr>failed_requests := failed_requests s1 + 1\<rparr> else s1)"

text \<open>
  The two hooks around every request. \<open>before_request\<close> yields the attribute
  \<open>request.start_time\<close> (\<open>None\<close> when it is not set).
\<close>

definition before_request :: "real \<Rightarrow> metrics \<Rightarrow> real option" where
  "before_request now s = (if test_active s then Some now else None)"

definition after_request :: "real option \<Rightarrow> real \<Rightarrow> string \<Rightarrow> int \<Rightarrow> metrics \<Rightarrow> metrics" where
  "after_request req_start now endpoint status_code s =
     (case req_start of
        None \<Rightarrow> s
      | Some t0 \<Rightarrow> if test_active s then record_sample endpoint (now - t0) status_code s else s)"

section \<open>Server: test controller\<close>

record endpoint_metrics =
  em_total_requests :: nat
  em_mean_response_time :: real
  em_median_response_time :: real
  em_min_response_time :: real
  em_max_response_time :: real
  em_p95_response_time :: real
  em_p99_response_time :: real

record metrics_view =
  mv_concurrent_users :: int
  mv_total_requests :: int
  mv_failed_requests :: int
  mv_success_rate :: real
  mv_test_active :: bool
  mv_endpoint_metrics :: "(string \<times> endpoint_metrics) list"
  mv_elapsed_time :: real

record test_summary =
  ts_concurrent_users :: int
  ts_total_requests :: int
  ts_failed_requests :: int
  ts_success_rate :: real
  ts_elapsed_time :: real

record endpoint_analysis =
  ea_total_requests :: nat
  ea_mean_response_time_ms :: real
  ea_median_response_time_ms :: real
  ea_std_dev_ms :: real
  ea_min_response_time_ms :: real
  ea_max_response_time_ms :: real
  ea_p95_response_time_ms :: real
  ea_p99_response_time_ms :: real
  ea_throughput_rps :: real
  ea_error_rate :: real

record report =
  rep_timestamp :: string
  rep_test_summary :: test_summary
  rep_endpoint_analysis :: "(string \<times> endpoint_analysis) list"

text \<open>The JSON bodies the handlers return, with the HTTP status beside them.\<close>

datatype body =
    ErrorBody string
  | StartedBody int
  | StoppedBody
  | MetricsBody metrics_view
  | ReportBody report

type_synonym response = "body \<times> nat"

text \<open>
  \<open>start_stress_test\<close>. Every exception (a failing \<open>get_json\<close>, \<open>.get\<close> on a
  value that is no dict, a failing \<open>int\<close>) ends in the 500 branch.
\<close>

definition start_stress_test ::
  "(string \<Rightarrow> int option) \<Rightarrow> get_json_result \<Rightarrow> real \<Rightarrow> metrics \<Rightarrow> metrics \<times> response" where
  "start_stress_test int_of_str req now s =
     (case req of
        JsonRaises \<Rightarrow> (s, (ErrorBody ''Error starting stress test'', 500))
      | JsonReturns j \<Rightarrow>
          (case (if truthy j then j else JObj []) of
             JObj data \<Rightarrow>
               (case py_int int_of_str
                       (case map_of data ''concurrentUsers'' of None \<Rightarrow> JInt 10 | Some v \<Rightarrow> v) of
                  None \<Rightarrow> (s, (ErrorBody ''Error starting stress test'', 500))
                | Some concurrent_users \<Rightarrow>
                    if concurrent_users < 1 \<or> concurrent_users > 1000
                    then (s, (ErrorBody ''concurrentUsers must be between 1 and 1000'', 400))
                    else (s\<lparr>response_times := [],
                            concurrent_requests := concurrent_users,
                            total_requests := 0,
                            failed_requests := 0,
                            start_time := Some now,
                            test_active := True\<rparr>,
                          (StartedBody concurrent_users, 200)))
           | _ \<Rightarrow> (s, (ErrorBody ''Error starting stress test'', 500))))"

definition stop_stress_test :: "metrics \<Rightarrow> metrics \<times> response" where
  "stop_stress_test s = (s\<lparr>test_active := False\<rparr>, (StoppedBody, 200))"

text \<open>
  One whole request to \<open>/stress_test/start\<close>, as the application runs it: the hook
  before the request at clock reading \<open>t0\<close>, the handler reading the clock at
  \<open>now\<close>, and the hook after the request at \<open>t1\<close> with the endpoint name of the
  handler and the status of its response.
\<close>

definition start_test_request ::
  "(string \<Rightarrow> int option) \<Rightarrow> get_json_result \<Rightarrow> real \<Rightarrow> real \<Rightarrow> real \<Rightarrow> metrics
     \<Rightarrow> metrics \<times> response" where
  "start_test_request int_of_str req t0 now t1 s =
     (let req_start = before_request t0 s;
          r = start_stress_test int_of_str req now s
      in (after_request req_start t1 ''start_stress_test'' (int (snd (snd r))) (fst r), snd r))"

section \<open>Server: statistical reducer\<close>

text \<open>The body of the loop of \<open>get_scalability_metrics\<close> for one non-empty bucket.\<close>

definition endpoint_stats :: "real list \<Rightarrow> endpoint_metrics option" where
  "endpoint_stats times' =
     (let times_sorted = sort times'; n = length times' in
      do {
        median \<leftarrow> (if n > 0 then py_getitem times_sorted (int (n div 2)) else Some 0);
        mn \<leftarrow> py_min times';
        mx \<leftarrow> py_max times';
        p95 \<leftarrow> (if n > 1 then py_getitem times_sorted (py_int_of_float (real n * 0.95))
                else py_getitem times' 0);
        p99 \<leftarrow> (if n > 1 then py_getitem times_sorted (py_int_of_float (real n * 0.99))
                else py_getitem times' 0);
        Some \<lparr>em_total_requests = n,
              em_mean_response_time = sum_list times' / real n,
              em_median_response_time = median,
              em_min_response_time = mn,
              em_max_response_time = mx,
              em_p95_response_time = p95,
              em_p99_response_time = p99\<rparr>
      })"

fun metrics_loop :: "(string \<times> real list) list \<Rightarrow> (string \<times> endpoint_metrics) list option" where
  "metrics_loop [] = Some []"
| "metrics_loop ((endpoint, times') # rest) =
     (if times' \<noteq> [] then
        (case endpoint_stats times' of
           None \<Rightarrow> None
         | Some m \<Rightarrow> map_option ((#) (endpoint, m)) (metrics_loop rest))
      else metrics_loop rest)"

text \<open>\<open>perf_counter() - start_time if start_time else 0\<close>: None and 0.0 are both falsy.\<close>

definition elapsed_since :: "real option \<Rightarrow> real \<Rightarrow> real" where
  "elapsed_since st now =
     (case st of None \<Rightarrow> 0 | Some t0 \<Rightarrow> if t0 \<noteq> 0 then now - t0 else 0)"

definition success_rate_of :: "metrics \<Rightarrow> real" where
  "success_rate_of s =
     real_of_int (total_requests s - failed_requests s) / real_of_int (max (total_requests s) 1)"

definition get_scalability_metrics :: "real \<Rightarrow> metrics \<Rightarrow> response" where
  "get_scalability_metrics now s =
     (case metrics_loop (response_times s) of
        None \<Rightarrow> (ErrorBody ''Error getting metrics'', 500)
      | Some ms \<Rightarrow>
          (MetricsBody
             \<lparr>mv_concurrent_users = concurrent_requests s,
              mv_total_requests = total_requests s,
              mv_failed_requests = failed_requests s,
              mv_success_rate = success_rate_of s,
              mv_test_active = test_active s,
              mv_endpoint_metrics = ms,
              mv_elapsed_time = elapsed_since (start_time s) now\<rparr>, 200))"

text \<open>
  The body of the loop of \<open>generate_scalability_report\<close> for one non-empty bucket;
  \<open>elapsed\<close> is \<open>report['test_summary']['elapsed_time']\<close>.
\<close>

definition analyse_endpoint :: "metrics \<Rightarrow> real \<Rightarrow> real list \<Rightarrow> endpoint_analysis option" where
  "analyse_endpoint s elapsed times' =
     (let times_sorted = sort times';
          n = length times';
          mean_time = sum_list times' / real n;
          throughput = (if elapsed > 0 then real n / elapsed else 0);
          variance = (\<Sum>t\<leftarrow>times'. (t - mean_time)\<^sup>2) / real n;
          std_dev = sqrt variance
      in
      do {
        median \<leftarrow> py_getitem times_sorted (int (n div 2));
        mn \<leftarrow> py_min times';
        mx \<leftarrow> py_max times';
        p95 \<leftarrow> (if n > 1
                then map_option (\<lambda>t. t * 1000)
                       (py_getitem times_sorted (py_int_of_float (real n * 0.95)))
                else map_option (\<lambda>t. t * 1000) (py_getitem times' 0));
        p99 \<leftarrow> (if n > 1
                then map_option (\<lambda>t. t * 1000)
                       (py_getitem times_sorted (py_int_of_float (real n * 0.99)))
                else map_option (\<lambda>t. t * 1000) (py_getitem times' 0));
        Some \<lparr>ea_total_requests = n,
              ea_mean_response_time_ms = mean_time * 1000,
              ea_median_response_time_ms = median * 1000,
              ea_std_dev_ms = std_dev * 1000,
              ea_min_response_time_ms = mn * 1000,
              ea_max_response_time_ms = mx * 1000,
              ea_p95_response_time_ms = p95,
              ea_p99_response_time_ms = p99,
              ea_throughput_rps = throughput,
              ea_error_rate = real_of_int (failed_requests s) / real (max n 1)\<rparr>
      })"

fun analyse_loop ::
  "metrics \<Rightarrow> real \<Rightarrow> (string \<times> real list) list \<Rightarrow> (string \<times> endpoint_analysis) list option" where
  "analyse_loop s elapsed [] = Some []"
| "analyse_loop s elapsed ((endpoint, times') # rest) =
     (if times' \<noteq> [] then
        (case analyse_endpoint s elapsed times' of
           None \<Rightarrow> None
         | Some a \<Rightarrow> map_option ((#) (endpoint, a)) (analyse_loop s elapsed rest))
      else analyse_loop s elapsed rest)"

section \<open>Server: report sink\<close>

text \<open>
  \<open>scalability_metrics.csv\<close>: \<open>None\<close> while the file does not exist, else its rows.
  A data row keeps the numbers that the code formats to fixed decimals. Writing is
  taken to succeed; the code logs a failure to write and answers as if it had not
  happened.
\<close>

record csv_data =
  csv_timestamp :: string
  csv_endpoint :: string
  csv_concurrent_users :: int
  csv_total_requests :: nat
  csv_failed_requests :: int
  csv_success_rate :: real
  csv_mean_ms :: real
  csv_median_ms :: real
  csv_p95_ms :: real
  csv_p99_ms :: real
  csv_throughput :: real
  csv_error_rate :: real

datatype csv_row = HeaderRow | DataRow csv_data

type_synonym csv_file = "csv_row list option"

definition csv_row_of :: "report \<Rightarrow> string \<times> endpoint_analysis \<Rightarrow> csv_row" where
  "csv_row_of r em =
     DataRow
       \<lparr>csv_timestamp = rep_timestamp r,
        csv_endpoint = fst em,
        csv_concurrent_users = ts_concurrent_users (rep_test_summary r),
        csv_total_requests = ea_total_requests (snd em),
        csv_failed_requests = ts_failed_requests (rep_test_summary r),
        csv_success_rate = ts_success_rate (rep_test_summary r),
        csv_mean_ms = ea_mean_response_time_ms (snd em),
        csv_median_ms = ea_median_response_time_ms (snd em),
        csv_p95_ms = ea_p95_response_time_ms (snd em),
        csv_p99_ms = ea_p99_response_time_ms (snd em),
        csv_throughput = ea_throughput_rps (snd em),
        csv_error_rate = ea_error_rate (snd em)\<rparr>"

definition save_scalability_report :: "report \<Rightarrow> csv_file \<Rightarrow> csv_file" where
  "save_scalability_report r f =
     Some ((case f of None \<Rightarrow> [HeaderRow] | Some rows \<Rightarrow> rows)
           @ map (csv_row_of r) (rep_endpoint_analysis r))"

text \<open>
  \<open>generate_scalability_report\<close>, given the reading of \<open>perf_counter()\<close> and the
  text of \<open>datetime.now().isoformat()\<close>; it returns the file beside the response.
\<close>

definition generate_scalability_report ::
  "real \<Rightarrow> string \<Rightarrow> metrics \<Rightarrow> csv_file \<Rightarrow> response \<times> csv_file" where
  "generate_scalability_report now stamp s f =
     (if response_times s = []
      then ((ErrorBody ''No metrics collected yet. Run stress test first.'', 400), f)
      else
        (let summary =
               \<lparr>ts_concurrent_users = concurrent_requests s,
                ts_total_requests = total_requests s,
                ts_failed_requests = failed_requests s,
                ts_success_rate = success_rate_of s,
                ts_elapsed_time = elapsed_since (start_time s) now\<rparr>
         in case analyse_loop s (ts_elapsed_time summary) (response_times s) of
              None \<Rightarrow> ((ErrorBody ''Error generating report'', 500), f)
            | Some analysis \<Rightarrow>
                (let r = \<lparr>rep_timestamp = stamp,
                          rep_test_summary = summary,
                          rep_endpoint_analysis = analysis\<rparr>
                 in ((ReportBody r, 200), save_scalability_report r f))))"

section \<open>Server: interleavings of the locked blocks\<close>

text \<open>
  Every mutation of the store happens in a block that holds \<open>_metrics_lock\<close>, so a
  run of the service is a sequence of these blocks in the order the lock was
  taken. \<open>after_request\<close> reads \<open>test_active\<close> before it takes the lock, so a
  sample may be recorded whatever the flag is by then.
\<close>

datatype event =
    Record string real int
  | Reset int real
  | Freeze

fun step :: "metrics \<Rightarrow> event \<Rightarrow> metrics" where
  "step s (Record endpoint response_time status_code) =
     record_sample endpoint response_time status_code s"
| "step s (Reset concurrent_users now) =
     s\<lparr>response_times := [],
       concurrent_requests := concurrent_users,
       total_requests := 0,
       failed_requests := 0,
       start_time := Some now,
       test_active := True\<rparr>"
| "step s Freeze = s\<lparr>test_active := False\<rparr>"

definition run_events :: "event list \<Rightarrow> metrics" where
  "run_events evs = foldl step initial_metrics evs"

definition sample_count :: "metrics \<Rightarrow> nat" where
  "sample_count s = sum_list (map (\<lambda>b. length (snd b)) (response_times s))"

text \<open>The samples of one endpoint.\<close>

definition bucket :: "metrics \<Rightarrow> string \<Rightarrow> real list" where
  "bucket s endpoint = (case map_of (response_times s) endpoint of None \<Rightarrow> [] | Some ts \<Rightarrow> ts)"

text \<open>
  The store keeps no status beside a duration. What a run of locked blocks has put
  into the store is counted from the run itself: the failed samples (status 400 or
  more) recorded for one endpoint since the last reset, and those of all endpoints.
\<close>

fun count_failed :: "string \<Rightarrow> nat \<Rightarrow> event \<Rightarrow> nat" where
  "count_failed endpoint k (Record e t status_code) =
     (if e = endpoint \<and> status_code \<ge> 400 then k + 1 else k)"
| "count_failed endpoint k (Reset concurrent_users now) = 0"
| "count_failed endpoint k Freeze = k"

definition failed_in_bucket :: "string \<Rightarrow> event list \<Rightarrow> nat" where
  "failed_in_bucket endpoint evs = foldl (count_failed endpoint) 0 evs"

fun count_failed_all :: "nat \<Rightarrow> event \<Rightarrow> nat" where
  "count_failed_all k (Record e t status_code) = (if status_code \<ge> 400 then k + 1 else k)"
| "count_failed_all k (Reset concurrent_users now) = 0"
| "count_failed_all k Freeze = k"

definition failed_in_run :: "event list \<Rightarrow> nat" where
  "failed_in_run evs = foldl count_failed_all 0 evs"

text \<open>The per-endpoint entries of a response, none when it carries no report.\<close>

definition report_entries :: "response \<Rightarrow> (string \<times> endpoint_analysis) list" where
  "report_entries resp = (case fst resp of ReportBody r \<Rightarrow> rep_endpoint_analysis r | _ \<Rightarrow> [])"

definition metrics_entries :: "response \<Rightarrow> (string \<times> endpoint_metrics) list" where
  "metrics_entries resp = (case fst resp of MetricsBody v \<Rightarrow> mv_endpoint_metrics v | _ \<Rightarrow> [])"

text \<open>
  A response with the three fields blanked that \<open>generate_scalability_report\<close>
  computes from the clock: the timestamp, the elapsed time and the throughput.
\<close>

definition without_clock_fields :: "response \<Rightarrow> response" where
  "without_clock_fields resp =
     (case fst resp of
        ReportBody r \<Rightarrow>
          (ReportBody
             (r\<lparr>rep_timestamp := [],
                rep_test_summary := (rep_test_summary r)\<lparr>ts_elapsed_time := 0\<rparr>,
                rep_endpoint_analysis :=
                  map (\<lambda>em. (fst em, (snd em)\<lparr>ea_throughput_rps := 0\<rparr>))
                    (rep_endpoint_analysis r)\<rparr>),
           snd resp)
      | _ \<Rightarrow> resp)"

section \<open>Client: the traffic generator\<close>

text \<open>\<open>statistics.mean\<close>, \<open>median\<close> and \<open>stdev\<close> of the standard library.\<close>

definition statistics_mean :: "real list \<Rightarrow> real option" where
  "statistics_mean xs = (if xs = [] then None else Some (sum_list xs / real (length xs)))"

definition statistics_median :: "real list \<Rightarrow> real option" where
  "statistics_median xs =
     (let data = sort xs; n = length data in
      if n = 0 then None
      else if n mod 2 = 1 then Some (data ! (n div 2))
      else Some ((data ! (n div 2 - 1) + data ! (n div 2)) / 2))"

definition statistics_stdev :: "real list \<Rightarrow> real option" where
  "statistics_stdev xs =
     (let n = length xs; c = sum_list xs / real n in
      if n < 2 then None
      else Some (sqrt ((\<Sum>x\<leftarrow>xs. (x - c)\<^sup>2) / real (n - 1))))"

record error_entry =
  err_request_id :: int
  err_status_code :: "int option"
  err_error :: "string option"
  err_response_time :: real

text \<open>\<open>self.results['response_times']\<close>, \<open>self.results['status_codes']\<close>, \<open>self.errors\<close>.\<close>

record load_tester =
  lt_response_times :: "real list"
  lt_status_codes :: "int list"
  lt_errors :: "error_entry list"

definition new_load_tester :: load_tester where
  "new_load_tester = \<lparr>lt_response_times = [], lt_status_codes = [], lt_errors = []\<rparr>"

text \<open>What \<open>requests.get\<close> did: a response with its status code, or an exception with its text.\<close>

datatype net_outcome = Responded int | Raised string

record request_result =
  rr_request_id :: int
  rr_status_code :: int
  rr_response_time :: real
  rr_success :: bool
  rr_error :: "string option"

definition make_request ::
  "int \<Rightarrow> net_outcome \<Rightarrow> real \<Rightarrow> load_tester \<Rightarrow> load_tester \<times> request_result" where
  "make_request request_id outcome elapsed_time self =
     (case outcome of
        Responded status_code \<Rightarrow>
          (let self1 = self\<lparr>lt_response_times := lt_response_times self @ [elapsed_time],
                            lt_status_codes := lt_status_codes self @ [status_code]\<rparr>;
               self2 = (if status_code \<ge> 400
                        then self1\<lparr>lt_errors := lt_errors self1 @
                               [\<lparr>err_request_id = request_id,
                                 err_status_code = Some status_code,
                                 err_error = None,
                                 err_response_time = elapsed_time\<rparr>]\<rparr>
                        else self1)
           in (self2,
               \<lparr>rr_request_id = request_id, rr_status_code = status_code,
                rr_response_time = elapsed_time, rr_success = (status_code < 400),
                rr_error = None\<rparr>))
      | Raised e \<Rightarrow>
          (self\<lparr>lt_errors := lt_errors self @
               [\<lparr>err_request_id = request_id,
                 err_status_code = None,
                 err_error = Some e,
                 err_response_time = elapsed_time\<rparr>]\<rparr>,
           \<lparr>rr_request_id = request_id, rr_status_code = 0,
            rr_response_time = elapsed_time, rr_success = False,
            rr_error = Some e\<rparr>))"

text \<open>
  The requests of all user threads, in the order their calls complete; the value
  \<open>make_request\<close> returns is dropped by \<open>user_simulation\<close>.
\<close>

fun run_requests :: "(int \<times> net_outcome \<times> real) list \<Rightarrow> load_tester \<Rightarrow> load_tester" where
  "run_requests [] self = self"
| "run_requests ((request_id, outcome, elapsed_time) # rest) self =
     run_requests rest (fst (make_request request_id outcome elapsed_time self))"

record stats =
  st_total_requests :: nat
  st_successful_requests :: nat
  st_failed_requests :: int
  st_success_rate :: real
  st_total_time_seconds :: real
  st_throughput_rps :: real
  st_mean_response_time_ms :: real
  st_median_response_time_ms :: real
  st_min_response_time_ms :: real
  st_max_response_time_ms :: real
  st_std_dev_ms :: real
  st_p95_response_time_ms :: real
  st_p99_response_time_ms :: real

text \<open>
  The end of \<open>run_test\<close>: \<open>None\<close> is an exception, \<open>Some None\<close> the return value
  \<open>None\<close> of a run that collected nothing.
\<close>

definition run_test_stats :: "real \<Rightarrow> load_tester \<Rightarrow> stats option option" where
  "run_test_stats total_time self =
     (let response_times' = lt_response_times self;
          total_requests' = length response_times';
          successful_requests = length (filter (\<lambda>sc. sc < 400) (lt_status_codes self));
          failed_requests' = int total_requests' - int successful_requests;
          sorted_times = sort response_times';
          n = length sorted_times
      in
      if response_times' \<noteq> [] then
        do {
          mean \<leftarrow> statistics_mean response_times';
          median \<leftarrow> statistics_median response_times';
          mn \<leftarrow> py_min response_times';
          mx \<leftarrow> py_max response_times';
          std_dev \<leftarrow> (if length response_times' > 1
                      then map_option (\<lambda>d. d * 1000) (statistics_stdev response_times')
                      else Some 0);
          p95 \<leftarrow> (if n > 1 then py_getitem sorted_times (py_int_of_float (real n * 0.95))
                  else py_getitem sorted_times 0);
          p99 \<leftarrow> (if n > 1 then py_getitem sorted_times (py_int_of_float (real n * 0.99))
                  else py_getitem sorted_times 0);
          Some (Some
            \<lparr>st_total_requests = total_requests',
             st_successful_requests = successful_requests,
             st_failed_requests = failed_requests',
             st_success_rate =
               (if total_requests' > 0 then real successful_requests / real total_requests' else 0),
             st_total_time_seconds = total_time,
             st_throughput_rps = (if total_time > 0 then real total_requests' / total_time else 0),
             st_mean_response_time_ms = mean * 1000,
             st_median_response_time_ms = median * 1000,
             st_min_response_time_ms = mn * 1000,
             st_max_response_time_ms = mx * 1000,
             st_std_dev_ms = std_dev,
             st_p95_response_time_ms = p95 * 1000,
             st_p99_response_time_ms = p99 * 1000\<rparr>)
        }
      else Some None)"

section \<open>The reducer as the specification words it\<close>

text \<open>The rank index \<open>floor(n * p)\<close> clamped to \<open>n - 1\<close>.\<close>

definition spec_rank_index :: "nat \<Rightarrow> real \<Rightarrow> nat" where
  "spec_rank_index n p = min (nat \<lfloor>real n * p\<rfloor>) (n - 1)"

text \<open>The nearest-rank median: the element at index \<open>n div 2\<close> of the sorted sequence.\<close>

definition spec_median :: "real list \<Rightarrow> real" where
  "spec_median xs = sort xs ! (length xs div 2)"

text \<open>The population standard deviation: the squared deviations are divided by \<open>n\<close>.\<close>

definition spec_population_std_dev :: "real list \<Rightarrow> real" where
  "spec_population_std_dev xs =
     sqrt ((\<Sum>x\<leftarrow>xs. (x - sum_list xs / real (length xs))\<^sup>2) / real (length xs))"

section \<open>The counters and the sample store move together\<close>

lemma sample_total_append_time:
  "sum_list (map (\<lambda>b. length (snd b)) (append_time e t xs)) =
   Suc (sum_list (map (\<lambda>b. length (snd b)) xs))"
  by (induction xs) auto

lemma sample_count_record:
  "sample_count (record_sample e t c s) = Suc (sample_count s)"
  by (simp add: sample_count_def record_sample_def Let_def sample_total_append_time)

lemma total_requests_record:
  "total_requests (record_sample e t c s) = total_requests s + 1"
  by (simp add: record_sample_def Let_def)

lemma step_keeps_total:
  "total_requests s = int (sample_count s) \<Longrightarrow>
   total_requests (step s ev) = int (sample_count (step s ev))"
  by (cases ev)
     (simp_all add: sample_count_record total_requests_record, simp_all add: sample_count_def)

lemma run_events_snoc: "run_events (evs @ [ev]) = step (run_events evs) ev"
  by (simp add: run_events_def)

lemma run_events_total: "total_requests (run_events evs) = int (sample_count (run_events evs))"
proof (induction evs rule: rev_induct)
  case Nil
  show ?case by (simp add: run_events_def initial_metrics_def sample_count_def)
next
  case (snoc ev evs)
  then show ?case by (simp add: run_events_snoc step_keeps_total)
qed

text \<open>
  The handlers change the store only through the locked blocks: each of them leaves
  the store as it was or as one \<open>step\<close> makes it.
\<close>

lemma after_request_is_step:
  "after_request req_start now endpoint status_code s = s \<or>
   (\<exists>t0. after_request req_start now endpoint status_code s =
          step s (Record endpoint (now - t0) status_code))"
  by (cases req_start) (auto simp: after_request_def)

lemma stop_is_step: "fst (stop_stress_test s) = step s Freeze"
  by (simp add: stop_stress_test_def)

lemma start_is_step:
  "fst (start_stress_test int_of_str req now s) = s \<or>
   (\<exists>n. fst (start_stress_test int_of_str req now s) = step s (Reset n now))"
  by (auto simp: start_stress_test_def split: get_json_result.splits jval.splits option.splits)

text \<open>
  Claim C9. After any sequence of locked blocks (samples recorded, resets by start,
  freezes by stop), in whatever order the lock was granted, \<open>total_requests\<close> is the
  sum of the lengths of the per-endpoint sample sequences; in particular right after
  a stop.
\<close>

theorem total_requests_equals_sample_count:
  "total_requests (run_events evs) = int (sample_count (run_events evs)) \<and>
   total_requests (run_events (evs @ [Freeze])) = int (sample_count (run_events (evs @ [Freeze])))"
  by (simp only: run_events_total)

section \<open>Starting a test\<close>

text \<open>
  A request that arrives while no test is active carries no \<open>start_time\<close>, so the
  hook after it records nothing: the store is as its handler left it.
\<close>

lemma inactive_request_cycle:
  "\<not> test_active s \<Longrightarrow> after_request (before_request t0 s) t1 endpoint status_code s' = s'"
  by (simp add: before_request_def after_request_def)

lemma start_handler_in_range:
  assumes "map_of data ''concurrentUsers'' = Some (JInt n)"
  shows "start_stress_test int_of_str (JsonReturns (JObj data)) now s =
     (if n < 1 \<or> 1000 < n
      then (s, (ErrorBody ''concurrentUsers must be between 1 and 1000'', 400))
      else (\<lparr>response_times = [], concurrent_requests = n, total_requests = 0,
             failed_requests = 0, start_time = Some now, test_active = True\<rparr>,
            (StartedBody n, 200)))"
proof -
  from assms have "data \<noteq> []" by auto
  with assms show ?thesis
    by (simp add: start_stress_test_def)
qed

lemma start_handler_default:
  assumes "req = JsonReturns JNull \<or>
           (\<exists>data. req = JsonReturns (JObj data) \<and> map_of data ''concurrentUsers'' = None)"
  shows "start_stress_test int_of_str req now s =
           (\<lparr>response_times = [], concurrent_requests = 10, total_requests = 0,
             failed_requests = 0, start_time = Some now, test_active = True\<rparr>,
            (StartedBody 10, 200))"
  using assms by (auto simp: start_stress_test_def)

lemma start_handler_raises:
  "start_stress_test int_of_str JsonRaises now s =
     (s, (ErrorBody ''Error starting stress test'', 500))"
  by (simp add: start_stress_test_def)

lemma active_run:
  "run_events [Reset 5 1, Record ''a'' 2 500] =
     \<lparr>response_times = [(''a'', [2])], concurrent_requests = 5, total_requests = 1,
      failed_requests = 1, start_time = Some 1, test_active = True\<rparr>"
  by (simp add: run_events_def initial_metrics_def record_sample_def)

text \<open>
  Claim C6, as the code has it. When the body carries an integer \<open>concurrentUsers\<close>,
  the handler answers a value below 1 or above 1000 with status 400 and leaves the
  store untouched; a value in range is answered with 200 and the handler resets the
  store: no samples, both counters zero, the target stored, the start time taken
  from the clock, the test active. That is also the store after the whole request
  when no test was active before it. When a test was active, the hooks around the
  request record the start request itself as one more sample: for a rejected value
  into the store as it was, counted as failed, and for an accepted value into the
  store just reset.
\<close>

theorem start_test_validates_range:
  assumes "map_of data ''concurrentUsers'' = Some (JInt n)"
  shows
   "start_stress_test int_of_str (JsonReturns (JObj data)) now s =
      (if n < 1 \<or> 1000 < n
       then (s, (ErrorBody ''concurrentUsers must be between 1 and 1000'', 400))
       else (\<lparr>response_times = [], concurrent_requests = n, total_requests = 0,
              failed_requests = 0, start_time = Some now, test_active = True\<rparr>,
             (StartedBody n, 200))) \<and>
    start_test_request int_of_str (JsonReturns (JObj data)) t0 now t1 s =
      (if n < 1 \<or> 1000 < n
       then ((if test_active s then record_sample ''start_stress_test'' (t1 - t0) 400 s else s),
             (ErrorBody ''concurrentUsers must be between 1 and 1000'', 400))
       else ((if test_active s
              then record_sample ''start_stress_test'' (t1 - t0) 200
                     \<lparr>response_times = [], concurrent_requests = n, total_requests = 0,
                      failed_requests = 0, start_time = Some now, test_active = True\<rparr>
              else \<lparr>response_times = [], concurrent_requests = n, total_requests = 0,
                    failed_requests = 0, start_time = Some now, test_active = True\<rparr>),
             (StartedBody n, 200)))"
  unfolding start_test_request_def start_handler_in_range [OF assms]
  by (simp add: before_request_def after_request_def Let_def)

theorem start_test_validates_range_witness:
  "start_test_request (\<lambda>_. None) (JsonReturns (JObj [(''concurrentUsers'', JInt 0)])) 6 7 8
     (run_events [Reset 5 1, Record ''a'' 2 500, Freeze]) =
     (run_events [Reset 5 1, Record ''a'' 2 500, Freeze],
      (ErrorBody ''concurrentUsers must be between 1 and 1000'', 400)) \<and>
   start_test_request (\<lambda>_. None) (JsonReturns (JObj [(''concurrentUsers'', JInt 1500)])) 6 7 8
     (run_events [Reset 5 1, Record ''a'' 2 500, Freeze]) =
     (run_events [Reset 5 1, Record ''a'' 2 500, Freeze],
      (ErrorBody ''concurrentUsers must be between 1 and 1000'', 400)) \<and>
   start_test_request (\<lambda>_. None) (JsonReturns (JObj [(''concurrentUsers'', JInt 10)])) 6 7 8
     (run_events [Reset 5 1, Record ''a'' 2 500, Freeze]) =
     (\<lparr>response_times = [], concurrent_requests = 10, total_requests = 0,
       failed_requests = 0, start_time = Some 7, test_active = True\<rparr>,
      (StartedBody 10, 200)) \<and>
   start_stress_test (\<lambda>_. None) (JsonReturns (JObj [(''concurrentUsers'', JInt 0)])) 7
     (run_events [Reset 5 1, Record ''a'' 2 500]) =
     (run_events [Reset 5 1, Record ''a'' 2 500],
      (ErrorBody ''concurrentUsers must be between 1 and 1000'', 400))"
proof -
  have f: "\<not> test_active (run_events [Reset 5 1, Record ''a'' 2 500, Freeze])"
    by (simp add: run_events_def initial_metrics_def record_sample_def)
  show ?thesis
    using f
      start_test_validates_range [of "[(''concurrentUsers'', JInt 0)]" 0 "\<lambda>_. None" 7
          "run_events [Reset 5 1, Record ''a'' 2 500, Freeze]" 6 8]
      start_test_validates_range [of "[(''concurrentUsers'', JInt 1500)]" 1500 "\<lambda>_. None" 7
          "run_events [Reset 5 1, Record ''a'' 2 500, Freeze]" 6 8]
      start_test_validates_range [of "[(''concurrentUsers'', JInt 10)]" 10 "\<lambda>_. None" 7
          "run_events [Reset 5 1, Record ''a'' 2 500, Freeze]" 6 8]
      start_test_validates_range [of "[(''concurrentUsers'', JInt 0)]" 0 "\<lambda>_. None" 7
          "run_events [Reset 5 1, Record ''a'' 2 500]" 6 8]
    by simp
qed

text \<open>
  Claim C6 as stated fails while a test is active. The store holds one failed sample
  of endpoint \<open>a\<close>. A start request with the value 0 is answered with 400, and after
  it the store has a second bucket and counts two requests, both failed. A start
  request with the value 10 is answered with 200, and after it \<open>total_requests\<close> is
  1, not 0.
\<close>

theorem start_while_active_is_recorded:
  "run_events [Reset 5 1, Record ''a'' 2 500] =
     \<lparr>response_times = [(''a'', [2])], concurrent_requests = 5, total_requests = 1,
      failed_requests = 1, start_time = Some 1, test_active = True\<rparr> \<and>
   start_test_request (\<lambda>_. None) (JsonReturns (JObj [(''concurrentUsers'', JInt 0)])) 6 7 8
     (run_events [Reset 5 1, Record ''a'' 2 500]) =
     (\<lparr>response_times = [(''a'', [2]), (''start_stress_test'', [2])], concurrent_requests = 5,
       total_requests = 2, failed_requests = 2, start_time = Some 1, test_active = True\<rparr>,
      (ErrorBody ''concurrentUsers must be between 1 and 1000'', 400)) \<and>
   start_test_request (\<lambda>_. None) (JsonReturns (JObj [(''concurrentUsers'', JInt 10)])) 6 7 8
     (run_events [Reset 5 1, Record ''a'' 2 500]) =
     (\<lparr>response_times = [(''start_stress_test'', [2])], concurrent_requests = 10,
       total_requests = 1, failed_requests = 0, start_time = Some 7, test_active = True\<rparr>,
      (StartedBody 10, 200))"
  unfolding active_run
  by (simp add: start_test_request_def start_stress_test_def before_request_def
        after_request_def record_sample_def Let_def)

text \<open>
  Claim C10, as the code has it. When \<open>get_json\<close> returns \<open>None\<close> or a dict without
  the key \<open>concurrentUsers\<close>, the handler and the whole request behave as for the
  body \<open>{"concurrentUsers": 10}\<close>: status 200 reporting 10 users, the store reset by
  the handler and the test active (when a test was active before, the start request
  itself is then recorded into the reset store). When the request carries no JSON
  body at all, \<open>get_json\<close> raises: the answer is status 500 and the handler leaves the
  store as it was.
\<close>

theorem start_test_defaults_to_ten:
  assumes "req = JsonReturns JNull \<or>
           (\<exists>data. req = JsonReturns (JObj data) \<and> map_of data ''concurrentUsers'' = None)"
  shows
   "start_stress_test int_of_str req now s =
      (\<lparr>response_times = [], concurrent_requests = 10, total_requests = 0,
        failed_requests = 0, start_time = Some now, test_active = True\<rparr>,
       (StartedBody 10, 200)) \<and>
    start_stress_test int_of_str req now s =
      start_stress_test int_of_str (JsonReturns (JObj [(''concurrentUsers'', JInt 10)])) now s \<and>
    start_test_request int_of_str req t0 now t1 s =
      start_test_request int_of_str (JsonReturns (JObj [(''concurrentUsers'', JInt 10)]))
        t0 now t1 s \<and>
    start_test_request int_of_str req t0 now t1 s =
      ((if test_active s
        then record_sample ''start_stress_test'' (t1 - t0) 200
               \<lparr>response_times = [], concurrent_requests = 10, total_requests = 0,
                failed_requests = 0, start_time = Some now, test_active = True\<rparr>
        else \<lparr>response_times = [], concurrent_requests = 10, total_requests = 0,
              failed_requests = 0, start_time = Some now, test_active = True\<rparr>),
       (StartedBody 10, 200)) \<and>
    start_stress_test int_of_str JsonRaises now s =
      (s, (ErrorBody ''Error starting stress test'', 500)) \<and>
    start_test_request int_of_str JsonRaises t0 now t1 s =
      ((if test_active s then record_sample ''start_stress_test'' (t1 - t0) 500 s else s),
       (ErrorBody ''Error starting stress test'', 500))"
proof -
  have ten: "start_stress_test int_of_str (JsonReturns (JObj [(''concurrentUsers'', JInt 10)])) now s =
      (\<lparr>response_times = [], concurrent_requests = 10, total_requests = 0,
        failed_requests = 0, start_time = Some now, test_active = True\<rparr>,
       (StartedBody 10, 200))"
    using start_handler_in_range [of "[(''concurrentUsers'', JInt 10)]" 10 int_of_str now s]
    by simp
  show ?thesis
    unfolding start_test_request_def start_handler_default [OF assms] ten start_handler_raises
    by (simp add: before_request_def after_request_def Let_def)
qed

theorem start_test_defaults_to_ten_witness:
  "start_test_request (\<lambda>_. None) (JsonReturns JNull) 6 7 8
     (run_events [Reset 5 1, Record ''a'' 2 500, Freeze]) =
     (\<lparr>response_times = [], concurrent_requests = 10, total_requests = 0,
       failed_requests = 0, start_time = Some 7, test_active = True\<rparr>,
      (StartedBody 10, 200)) \<and>
   start_stress_test (\<lambda>_. None) (JsonReturns (JObj [(''other'', JInt 3)])) 7
     (run_events [Reset 5 1, Record ''a'' 2 500]) =
     (\<lparr>response_times = [], concurrent_requests = 10, total_requests = 0,
       failed_requests = 0, start_time = Some 7, test_active = True\<rparr>,
      (StartedBody 10, 200))"
proof -
  have f: "\<not> test_active (run_events [Reset 5 1, Record ''a'' 2 500, Freeze])"
    by (simp add: run_events_def initial_metrics_def record_sample_def)
  have h1: "JsonReturns JNull = JsonReturns JNull \<or>
            (\<exists>data. JsonReturns JNull = JsonReturns (JObj data) \<and>
                    map_of data ''concurrentUsers'' = None)"
    by simp
  have h2: "JsonReturns (JObj [(''other'', JInt 3)]) = JsonReturns JNull \<or>
            (\<exists>data. JsonReturns (JObj [(''other'', JInt 3)]) = JsonReturns (JObj data) \<and>
                    map_of data ''concurrentUsers'' = None)"
    by simp
  note a = start_test_defaults_to_ten [OF h1, where int_of_str = "\<lambda>_. None" and now = 7
      and s = "run_events [Reset 5 1, Record ''a'' 2 500, Freeze]" and ?t0.0 = 6 and ?t1.0 = 8]
  note b = start_test_defaults_to_ten [OF h2, where int_of_str = "\<lambda>_. None" and now = 7
      and s = "run_events [Reset 5 1, Record ''a'' 2 500]" and ?t0.0 = 6 and ?t1.0 = 8]
  from a [THEN conjunct2, THEN conjunct2, THEN conjunct2, THEN conjunct1] f
  have A: "start_test_request (\<lambda>_. None) (JsonReturns JNull) 6 7 8
     (run_events [Reset 5 1, Record ''a'' 2 500, Freeze]) =
     (\<lparr>response_times = [], concurrent_requests = 10, total_requests = 0,
       failed_requests = 0, start_time = Some 7, test_active = True\<rparr>,
      (StartedBody 10, 200))"
    by simp
  from A b [THEN conjunct1] show ?thesis by (rule conjI)
qed

text \<open>
  Claim C10 as stated fails for a request without a JSON body: it is answered with
  500 and the store is not reset. And while a test is active, a start request
  without the key ends with \<open>total_requests\<close> 1, not 0.
\<close>

theorem start_without_json_body_is_error:
  "start_test_request (\<lambda>_. None) JsonRaises 6 7 8
     (run_events [Reset 5 1, Record ''a'' 2 500, Freeze]) =
     (run_events [Reset 5 1, Record ''a'' 2 500, Freeze],
      (ErrorBody ''Error starting stress test'', 500)) \<and>
   start_stress_test (\<lambda>_. None) JsonRaises 7
     (run_events [Reset 5 1, Record ''a'' 2 500, Freeze]) =
     (run_events [Reset 5 1, Record ''a'' 2 500, Freeze],
      (ErrorBody ''Error starting stress test'', 500)) \<and>
   start_test_request (\<lambda>_. None) (JsonReturns JNull) 6 7 8
     (run_events [Reset 5 1, Record ''a'' 2 500]) =
     (\<lparr>response_times = [(''start_stress_test'', [2])], concurrent_requests = 10,
       total_requests = 1, failed_requests = 0, start_time = Some 7, test_active = True\<rparr>,
      (StartedBody 10, 200))"
proof -
  have f: "\<not> test_active (run_events [Reset 5 1, Record ''a'' 2 500, Freeze])"
    by (simp add: run_events_def initial_metrics_def record_sample_def)
  have a: "start_test_request (\<lambda>_. None) (JsonReturns JNull) 6 7 8
     (run_events [Reset 5 1, Record ''a'' 2 500]) =
     (\<lparr>response_times = [(''start_stress_test'', [2])], concurrent_requests = 10,
       total_requests = 1, failed_requests = 0, start_time = Some 7, test_active = True\<rparr>,
      (StartedBody 10, 200))"
    unfolding active_run
    by (simp add: start_test_request_def start_stress_test_def before_request_def
        after_request_def record_sample_def Let_def)
  show ?thesis
    using f a
    by (simp add: start_test_request_def start_handler_raises before_request_def
          after_request_def Let_def)
qed

section \<open>The reducers on a non-empty bucket\<close>

text \<open>
  Every index the reducers read is in range, so none of them raises on a non-empty
  bucket; the lemmas below give each result in closed form.
\<close>

lemma py_getitem_nat: "i < length xs \<Longrightarrow> py_getitem xs (int i) = Some (xs ! i)"
  by (simp add: py_getitem_def)

lemma py_max_Max: "xs \<noteq> [] \<Longrightarrow> py_max xs = Some (Max (set xs))"
  using Max.set_eq_fold [of "hd xs" "tl xs"] by (cases xs) simp_all

lemma py_min_Min: "xs \<noteq> [] \<Longrightarrow> py_min xs = Some (Min (set xs))"
  using Min.set_eq_fold [of "hd xs" "tl xs"] by (cases xs) simp_all

lemma rank_floor: "0 \<le> p \<Longrightarrow> py_int_of_float (real n * p) = int (nat \<lfloor>real n * p\<rfloor>)"
  by (simp add: py_int_of_float_def)

lemma rank_lt:
  assumes "0 \<le> p" "p < 1" "0 < n"
  shows "nat \<lfloor>real n * p\<rfloor> < n"
proof -
  have "real n * p < real n" using assms by simp
  then have "\<lfloor>real n * p\<rfloor> < int n" by (simp add: floor_less_iff)
  then show ?thesis using assms by linarith
qed

lemma spec_rank_index_floor:
  "0 \<le> p \<Longrightarrow> p < 1 \<Longrightarrow> 0 < n \<Longrightarrow> spec_rank_index n p = nat \<lfloor>real n * p\<rfloor>"
  using rank_lt [of p n] by (simp add: spec_rank_index_def)

lemma spec_rank_index_lt: "0 < n \<Longrightarrow> spec_rank_index n p < n"
  by (simp add: spec_rank_index_def min_less_iff_disj)

lemma spec_rank_index_mono:
  "0 \<le> p \<Longrightarrow> p \<le> q \<Longrightarrow> spec_rank_index n p \<le> spec_rank_index n q"
proof -
  assume "0 \<le> p" "p \<le> q"
  then have "real n * p \<le> real n * q" by (simp add: mult_left_mono)
  then have "nat \<lfloor>real n * p\<rfloor> \<le> nat \<lfloor>real n * q\<rfloor>" by (simp add: floor_mono nat_mono)
  then show ?thesis by (simp add: spec_rank_index_def min_def)
qed

lemma percentile_pick:
  assumes "xs \<noteq> []" "0 \<le> p" "p < 1"
  shows "(if length xs > 1
          then py_getitem (sort xs) (py_int_of_float (real (length xs) * p))
          else py_getitem xs 0) = Some (sort xs ! spec_rank_index (length xs) p)"
proof (cases "length xs > 1")
  case True
  then have lt: "nat \<lfloor>real (length xs) * p\<rfloor> < length (sort xs)"
    using rank_lt [of p "length xs"] assms by simp
  have "py_getitem (sort xs) (py_int_of_float (real (length xs) * p)) =
        py_getitem (sort xs) (int (nat \<lfloor>real (length xs) * p\<rfloor>))"
    using assms by (simp only: rank_floor)
  also have "\<dots> = Some (sort xs ! nat \<lfloor>real (length xs) * p\<rfloor>)"
    using lt by (rule py_getitem_nat)
  also have "nat \<lfloor>real (length xs) * p\<rfloor> = spec_rank_index (length xs) p"
    using True assms by (simp add: spec_rank_index_floor)
  finally show ?thesis using True by simp
next
  case False
  with assms obtain x where "xs = [x]" by (cases xs) auto
  then show ?thesis by (simp add: py_getitem_def spec_rank_index_def)
qed

lemma sorted_nth_le_Max: "i < length xs \<Longrightarrow> sort xs ! i \<le> Max (set xs)"
proof -
  assume "i < length xs"
  then have "sort xs ! i \<in> set (sort xs)" by (simp del: set_sort)
  then show ?thesis by simp
qed

lemma endpoint_stats_closed:
  assumes "times' \<noteq> []"
  shows "endpoint_stats times' =
     Some \<lparr>em_total_requests = length times',
           em_mean_response_time = sum_list times' / real (length times'),
           em_median_response_time = sort times' ! (length times' div 2),
           em_min_response_time = Min (set times'),
           em_max_response_time = Max (set times'),
           em_p95_response_time = sort times' ! spec_rank_index (length times') 0.95,
           em_p99_response_time = sort times' ! spec_rank_index (length times') 0.99\<rparr>"
proof -
  have n: "0 < length times'" using assms by simp
  have med: "py_getitem (sort times') (int (length times' div 2)) = Some (sort times' ! (length times' div 2))"
    using n by (simp add: py_getitem_nat)
  show ?thesis
    unfolding endpoint_stats_def Let_def
    using n assms percentile_pick [OF assms, of "0.95"] percentile_pick [OF assms, of "0.99"]
    by (simp add: med py_max_Max py_min_Min)
qed

lemma analyse_endpoint_closed:
  assumes "times' \<noteq> []"
  shows "analyse_endpoint s elapsed times' =
     Some \<lparr>ea_total_requests = length times',
           ea_mean_response_time_ms = sum_list times' / real (length times') * 1000,
           ea_median_response_time_ms = sort times' ! (length times' div 2) * 1000,
           ea_std_dev_ms = spec_population_std_dev times' * 1000,
           ea_min_response_time_ms = Min (set times') * 1000,
           ea_max_response_time_ms = Max (set times') * 1000,
           ea_p95_response_time_ms = sort times' ! spec_rank_index (length times') 0.95 * 1000,
           ea_p99_response_time_ms = sort times' ! spec_rank_index (length times') 0.99 * 1000,
           ea_throughput_rps = (if elapsed > 0 then real (length times') / elapsed else 0),
           ea_error_rate = real_of_int (failed_requests s) / real (length times')\<rparr>"
proof -
  have n: "0 < length times'" using assms by simp
  have med: "py_getitem (sort times') (int (length times' div 2)) = Some (sort times' ! (length times' div 2))"
    using n by (simp add: py_getitem_nat)
  have p95: "(if length times' > 1
          then map_option (\<lambda>t. t * 1000) (py_getitem (sort times') (py_int_of_float (real (length times') * 0.95)))
          else map_option (\<lambda>t. t * 1000) (py_getitem times' 0)) = Some (sort times' ! spec_rank_index (length times') 0.95 * 1000)"
    using percentile_pick [OF assms, of "0.95"] by (simp split: if_splits)
  have p99: "(if length times' > 1
          then map_option (\<lambda>t. t * 1000) (py_getitem (sort times') (py_int_of_float (real (length times') * 0.99)))
          else map_option (\<lambda>t. t * 1000) (py_getitem times' 0)) = Some (sort times' ! spec_rank_index (length times') 0.99 * 1000)"
    using percentile_pick [OF assms, of "0.99"] by (simp split: if_splits)
  have mx: "max (length times') 1 = length times'" using assms by (cases times') simp_all
  show ?thesis
    unfolding analyse_endpoint_def Let_def
    using n assms
    by (simp only: med p95 p99 mx py_max_Max [OF assms] py_min_Min [OF assms] bind.bind_lunit spec_population_std_dev_def)
qed

text \<open>The same for the statistics at the end of \<open>run_test\<close>.\<close>

lemma percentile_pick_sorted:
  assumes "xs \<noteq> []" "0 \<le> p" "p < 1"
  shows "(if length (sort xs) > 1
          then py_getitem (sort xs) (py_int_of_float (real (length (sort xs)) * p))
          else py_getitem (sort xs) 0) = Some (sort xs ! spec_rank_index (length xs) p)"
proof (cases "length xs > 1")
  case True
  then show ?thesis using percentile_pick [OF assms] by simp
next
  case False
  with assms(1) obtain x where "xs = [x]" by (cases xs) auto
  then show ?thesis by (simp add: py_getitem_def spec_rank_index_def)
qed

lemma statistics_median_closed:
  "xs \<noteq> [] \<Longrightarrow>
   statistics_median xs =
     Some (if odd (length xs) then sort xs ! (length xs div 2)
           else (sort xs ! (length xs div 2 - 1) + sort xs ! (length xs div 2)) / 2)"
proof -
  assume "xs \<noteq> []"
  then have "sort xs \<noteq> []" by (metis length_sort length_0_conv)
  then show ?thesis
    by (simp add: statistics_median_def Let_def odd_iff_mod_2_eq_one)
qed

lemma statistics_stdev_closed:
  "1 < length xs \<Longrightarrow>
   statistics_stdev xs =
     Some (sqrt ((\<Sum>x\<leftarrow>xs. (x - sum_list xs / real (length xs))\<^sup>2) / real (length xs - 1)))"
  by (simp add: statistics_stdev_def Let_def)

lemma run_test_stats_closed:
  assumes "lt_response_times self \<noteq> []"
  shows "run_test_stats total_time self =
     Some (Some
       \<lparr>st_total_requests = length (lt_response_times self),
        st_successful_requests = length (filter (\<lambda>sc. sc < 400) (lt_status_codes self)),
        st_failed_requests =
          int (length (lt_response_times self)) -
          int (length (filter (\<lambda>sc. sc < 400) (lt_status_codes self))),
        st_success_rate =
          real (length (filter (\<lambda>sc. sc < 400) (lt_status_codes self))) /
          real (length (lt_response_times self)),
        st_total_time_seconds = total_time,
        st_throughput_rps =
          (if total_time > 0 then real (length (lt_response_times self)) / total_time else 0),
        st_mean_response_time_ms =
          sum_list (lt_response_times self) / real (length (lt_response_times self)) * 1000,
        st_median_response_time_ms =
          (if odd (length (lt_response_times self))
           then sort (lt_response_times self) ! (length (lt_response_times self) div 2)
           else (sort (lt_response_times self) ! (length (lt_response_times self) div 2 - 1) +
                 sort (lt_response_times self) ! (length (lt_response_times self) div 2)) / 2) * 1000,
        st_min_response_time_ms = Min (set (lt_response_times self)) * 1000,
        st_max_response_time_ms = Max (set (lt_response_times self)) * 1000,
        st_std_dev_ms =
          (if 1 < length (lt_response_times self)
           then sqrt ((\<Sum>x\<leftarrow>lt_response_times self.
                         (x - sum_list (lt_response_times self) /
                              real (length (lt_response_times self)))\<^sup>2) /
                      real (length (lt_response_times self) - 1)) * 1000
           else 0),
        st_p95_response_time_ms =
          sort (lt_response_times self) ! spec_rank_index (length (lt_response_times self)) 0.95 * 1000,
        st_p99_response_time_ms =
          sort (lt_response_times self) ! spec_rank_index (length (lt_response_times self)) 0.99 * 1000\<rparr>)"
proof -
  let ?xs = "lt_response_times self"
  have n: "0 < length ?xs" using assms by simp
  have mean: "statistics_mean ?xs = Some (sum_list ?xs / real (length ?xs))"
    using assms by (simp add: statistics_mean_def)
  have sd: "(if length ?xs > 1 then map_option (\<lambda>d. d * 1000) (statistics_stdev ?xs) else Some 0) =
     Some (if 1 < length ?xs
           then sqrt ((\<Sum>x\<leftarrow>?xs. (x - sum_list ?xs / real (length ?xs))\<^sup>2) / real (length ?xs - 1)) * 1000
           else 0)"
    by (simp add: statistics_stdev_closed)
  note p95 = percentile_pick_sorted [OF assms, of "0.95"]
  note p99 = percentile_pick_sorted [OF assms, of "0.99"]
  show ?thesis
    unfolding run_test_stats_def Let_def
    using assms n p95 p99
    by (simp only: mean sd statistics_median_closed [OF assms] py_max_Max [OF assms]
          py_min_Min [OF assms] bind.bind_lunit if_True if_False)
       simp
qed

section \<open>The loops over the buckets\<close>

lemma analyse_loop_closed:
  "analyse_loop s elapsed rt =
     Some (map (\<lambda>b. (fst b, the (analyse_endpoint s elapsed (snd b))))
            (filter (\<lambda>b. snd b \<noteq> []) rt))"
proof (induction rt)
  case Nil
  show ?case by simp
next
  case (Cons b rt)
  obtain e ts where b: "b = (e, ts)" by (cases b)
  show ?case
  proof (cases "ts = []")
    case True
    with Cons b show ?thesis by simp
  next
    case False
    then obtain a where "analyse_endpoint s elapsed ts = Some a"
      using analyse_endpoint_closed [of ts s elapsed] by simp
    with Cons b False show ?thesis by simp
  qed
qed

lemma metrics_loop_closed:
  "metrics_loop rt =
     Some (map (\<lambda>b. (fst b, the (endpoint_stats (snd b))))
            (filter (\<lambda>b. snd b \<noteq> []) rt))"
proof (induction rt)
  case Nil
  show ?case by simp
next
  case (Cons b rt)
  obtain e ts where b: "b = (e, ts)" by (cases b)
  show ?case
  proof (cases "ts = []")
    case True
    with Cons b show ?thesis by simp
  next
    case False
    then obtain a where "endpoint_stats ts = Some a"
      using endpoint_stats_closed [of ts] by simp
    with Cons b False show ?thesis by simp
  qed
qed

lemma report_entries_closed:
  "response_times s \<noteq> [] \<Longrightarrow>
   report_entries (fst (generate_scalability_report now stamp s f)) =
     map (\<lambda>b. (fst b, the (analyse_endpoint s (elapsed_since (start_time s) now) (snd b))))
       (filter (\<lambda>b. snd b \<noteq> []) (response_times s))"
  by (simp add: generate_scalability_report_def report_entries_def analyse_loop_closed Let_def)

lemma report_entries_none:
  "response_times s = [] \<Longrightarrow>
   report_entries (fst (generate_scalability_report now stamp s f)) = []"
  by (simp add: generate_scalability_report_def report_entries_def)

lemma report_entry_bucket:
  assumes "(e, a) \<in> set (report_entries (fst (generate_scalability_report now stamp s f)))"
  shows "\<exists>ts. (e, ts) \<in> set (response_times s) \<and> ts \<noteq> [] \<and>
              analyse_endpoint s (elapsed_since (start_time s) now) ts = Some a"
proof (cases "response_times s = []")
  case True
  with assms show ?thesis by (simp add: report_entries_none)
next
  case False
  with assms obtain b where b: "b \<in> set (response_times s)" "snd b \<noteq> []"
      "e = fst b" "a = the (analyse_endpoint s (elapsed_since (start_time s) now) (snd b))"
    by (auto simp: report_entries_closed)
  obtain a' where a': "analyse_endpoint s (elapsed_since (start_time s) now) (snd b) = Some a'"
    using analyse_endpoint_closed [OF b(2)] by simp
  have "(e, snd b) \<in> set (response_times s)" using b(1,3) by simp
  with b(2,4) a' show ?thesis by (intro exI [of _ "snd b"]) simp
qed

lemma metrics_entries_closed:
  "metrics_entries (get_scalability_metrics now s) =
     map (\<lambda>b. (fst b, the (endpoint_stats (snd b))))
       (filter (\<lambda>b. snd b \<noteq> []) (response_times s))"
  by (simp add: get_scalability_metrics_def metrics_entries_def metrics_loop_closed)

lemma metrics_entry_bucket:
  assumes "(e, m) \<in> set (metrics_entries (get_scalability_metrics now s))"
  shows "\<exists>ts. (e, ts) \<in> set (response_times s) \<and> ts \<noteq> [] \<and> endpoint_stats ts = Some m"
proof -
  from assms obtain b where b: "b \<in> set (response_times s)" "snd b \<noteq> []"
      "e = fst b" "m = the (endpoint_stats (snd b))"
    by (auto simp: metrics_entries_closed)
  obtain m' where m': "endpoint_stats (snd b) = Some m'"
    using endpoint_stats_closed [OF b(2)] by simp
  have "(e, snd b) \<in> set (response_times s)" using b(1,3) by simp
  with b(2,4) m' show ?thesis by (intro exI [of _ "snd b"]) simp
qed

section \<open>Invariants of the store\<close>

text \<open>
  In every store that the locked blocks can produce, the keys of \<open>response_times\<close>
  are distinct and no bucket is empty; \<open>failed_requests\<close> counts the failed samples
  of all buckets since the last reset.
\<close>

lemma append_time_keys: "fst ` set (append_time e t xs) = insert e (fst ` set xs)"
proof (induction xs)
  case Nil
  show ?case by simp
next
  case (Cons b xs)
  obtain k ts where b: "b = (k, ts)" by (cases b)
  show ?case
  proof (cases "k = e")
    case True
    with b show ?thesis by simp
  next
    case False
    with b Cons show ?thesis by (simp add: insert_commute)
  qed
qed

lemma append_time_distinct: "distinct (map fst xs) \<Longrightarrow> distinct (map fst (append_time e t xs))"
proof (induction xs)
  case Nil
  show ?case by simp
next
  case (Cons b xs)
  obtain k ts where b: "b = (k, ts)" by (cases b)
  show ?case
  proof (cases "k = e")
    case True
    with Cons b show ?thesis by simp
  next
    case False
    have "k \<notin> fst ` set (append_time e t xs)"
      using Cons.prems b False by (simp add: append_time_keys)
    with Cons b False show ?thesis by simp
  qed
qed

lemma append_time_empty_bucket:
  "(k, []) \<in> set (append_time e t xs) \<Longrightarrow> (k, []) \<in> set xs"
  by (induction xs) (auto split: if_splits)

lemma append_time_nonempty:
  assumes "\<forall>b \<in> set xs. snd b \<noteq> []"
  shows "\<forall>b \<in> set (append_time e t xs). snd b \<noteq> []"
proof
  fix b assume b: "b \<in> set (append_time e t xs)"
  show "snd b \<noteq> []"
  proof
    assume "snd b = []"
    with b have "(fst b, []) \<in> set (append_time e t xs)" by (metis prod.collapse)
    then have "(fst b, []) \<in> set xs" by (rule append_time_empty_bucket)
    with assms show False by force
  qed
qed

lemma step_store_inv:
  "distinct (map fst (response_times s)) \<and> (\<forall>b \<in> set (response_times s). snd b \<noteq> []) \<Longrightarrow>
   distinct (map fst (response_times (step s ev))) \<and>
   (\<forall>b \<in> set (response_times (step s ev)). snd b \<noteq> [])"
proof (cases ev)
  case (Record e t c)
  assume inv: "distinct (map fst (response_times s)) \<and> (\<forall>b \<in> set (response_times s). snd b \<noteq> [])"
  have rt: "response_times (step s ev) = append_time e t (response_times s)"
    using Record by (simp add: record_sample_def Let_def)
  show ?thesis
    unfolding rt using inv append_time_distinct append_time_nonempty by blast
qed simp_all

lemma run_events_store_inv:
  "distinct (map fst (response_times (run_events evs))) \<and>
   (\<forall>b \<in> set (response_times (run_events evs)). snd b \<noteq> [])"
proof (induction evs rule: rev_induct)
  case Nil
  show ?case by (simp add: run_events_def initial_metrics_def)
next
  case (snoc ev evs)
  then show ?case unfolding run_events_snoc by (rule step_store_inv)
qed

lemma bucket_of_entry:
  "distinct (map fst (response_times s)) \<Longrightarrow> (e, ts) \<in> set (response_times s) \<Longrightarrow> bucket s e = ts"
  by (simp add: bucket_def)

lemma no_samples_no_buckets:
  "sample_count (run_events evs) = 0 \<Longrightarrow> response_times (run_events evs) = []"
proof -
  assume z: "sample_count (run_events evs) = 0"
  have ne: "\<forall>b \<in> set (response_times (run_events evs)). snd b \<noteq> []"
    using run_events_store_inv by blast
  show ?thesis
  proof (cases "response_times (run_events evs)")
    case Nil then show ?thesis .
  next
    case (Cons b rest)
    with ne have "snd b \<noteq> []" by simp
    with Cons z show ?thesis by (simp add: sample_count_def)
  qed
qed

lemma failed_in_run_snoc: "failed_in_run (evs @ [ev]) = count_failed_all (failed_in_run evs) ev"
  by (simp add: failed_in_run_def)

lemma failed_in_bucket_snoc:
  "failed_in_bucket e (evs @ [ev]) = count_failed e (failed_in_bucket e evs) ev"
  by (simp add: failed_in_bucket_def)

lemma failed_requests_run: "failed_requests (run_events evs) = int (failed_in_run evs)"
proof (induction evs rule: rev_induct)
  case Nil
  show ?case by (simp add: run_events_def initial_metrics_def failed_in_run_def)
next
  case (snoc ev evs)
  then show ?case
    by (cases ev) (simp_all add: run_events_snoc failed_in_run_snoc record_sample_def Let_def)
qed

lemma failed_in_bucket_le_run: "failed_in_bucket e evs \<le> failed_in_run evs"
proof (induction evs rule: rev_induct)
  case Nil
  show ?case by (simp add: failed_in_bucket_def failed_in_run_def)
next
  case (snoc ev evs)
  then show ?case
    by (cases ev) (simp_all add: failed_in_bucket_snoc failed_in_run_snoc)
qed

section \<open>A report without samples\<close>

lemma report_no_buckets:
  "response_times s = [] \<Longrightarrow>
   generate_scalability_report now stamp s f =
     ((ErrorBody ''No metrics collected yet. Run stress test first.'', 400), f)"
  by (simp add: generate_scalability_report_def)

text \<open>
  Claim C8. When the store holds no sample (nothing was recorded since the process
  started or since the last start), the report handler answers with status 400 and
  the message that no metrics were collected, and the log file is left as it was.
\<close>

theorem report_without_samples_is_no_data:
  assumes "sample_count (run_events evs) = 0"
  shows "generate_scalability_report now stamp (run_events evs) f =
           ((ErrorBody ''No metrics collected yet. Run stress test first.'', 400), f)"
  using assms by (intro report_no_buckets no_samples_no_buckets)

theorem report_without_samples_is_no_data_witness:
  "sample_count (run_events [Reset 10 5, Freeze]) = 0 \<and>
   generate_scalability_report 9 ''2026-01-01T00:00:00'' (run_events [Reset 10 5, Freeze])
       (Some [HeaderRow]) =
     ((ErrorBody ''No metrics collected yet. Run stress test first.'', 400), Some [HeaderRow]) \<and>
   generate_scalability_report 9 ''2026-01-01T00:00:00'' (run_events []) None =
     ((ErrorBody ''No metrics collected yet. Run stress test first.'', 400), None)"
proof -
  have a: "sample_count (run_events [Reset 10 5, Freeze]) = 0"
    by (simp add: sample_count_def run_events_def initial_metrics_def)
  have b: "sample_count (run_events []) = 0"
    by (simp add: sample_count_def run_events_def initial_metrics_def)
  show ?thesis
    using a report_without_samples_is_no_data [OF a] report_without_samples_is_no_data [OF b]
    by simp
qed

section \<open>The error rate of an endpoint\<close>

lemma spec_rank_index_single: "spec_rank_index (Suc 0) p = 0"
  by (simp add: spec_rank_index_def)

lemma spec_population_std_dev_single: "spec_population_std_dev [x] = 0"
  by (simp add: spec_population_std_dev_def)

lemma analyse_endpoint_single:
  "analyse_endpoint s elapsed [x] =
   Some \<lparr>ea_total_requests = 1, ea_mean_response_time_ms = x * 1000,
       ea_median_response_time_ms = x * 1000, ea_std_dev_ms = 0,
       ea_min_response_time_ms = x * 1000, ea_max_response_time_ms = x * 1000,
       ea_p95_response_time_ms = x * 1000, ea_p99_response_time_ms = x * 1000,
       ea_throughput_rps = (if elapsed > 0 then 1 / elapsed else 0),
       ea_error_rate = real_of_int (failed_requests s)\<rparr>"
  by (simp add: analyse_endpoint_closed spec_rank_index_single spec_population_std_dev_single)

lemma two_endpoint_run:
  "run_events [Reset 10 100, Record ''a'' 0.01 200, Record ''b'' 0.02 500] =
     \<lparr>response_times = [(''a'', [0.01]), (''b'', [0.02])], concurrent_requests = 10,
      total_requests = 2, failed_requests = 1, start_time = Some 100, test_active = True\<rparr>"
  by (simp add: run_events_def initial_metrics_def record_sample_def)

text \<open>
  What line 512 computes. For every per-endpoint entry of a generated report,
  \<open>error_rate\<close> is the run-wide counter \<open>failed_requests\<close> (the failed samples of all
  endpoints since the last start) divided by the number of samples in that endpoint's
  bucket.
\<close>

lemma error_rate_uses_run_wide_failures:
  assumes "(e, a) \<in> set (report_entries
             (fst (generate_scalability_report now stamp (run_events evs) f)))"
  shows "bucket (run_events evs) e \<noteq> [] \<and>
         ea_total_requests a = length (bucket (run_events evs) e) \<and>
         ea_error_rate a =
           real (failed_in_run evs) / real (length (bucket (run_events evs) e)) \<and>
         failed_requests (run_events evs) = int (failed_in_run evs)"
proof -
  from report_entry_bucket [OF assms] obtain ts where ts:
    "(e, ts) \<in> set (response_times (run_events evs))" "ts \<noteq> []"
    "analyse_endpoint (run_events evs) (elapsed_since (start_time (run_events evs)) now) ts = Some a"
    by blast
  have b: "bucket (run_events evs) e = ts"
    using run_events_store_inv ts(1) by (intro bucket_of_entry) simp_all
  from ts(3) show ?thesis
    unfolding b analyse_endpoint_closed [OF ts(2)]
    using ts(2) by (auto simp: failed_requests_run)
qed

lemma error_rate_uses_run_wide_failures_example:
  "(''a'', \<lparr>ea_total_requests = 1, ea_mean_response_time_ms = 10,
       ea_median_response_time_ms = 10, ea_std_dev_ms = 0, ea_min_response_time_ms = 10,
       ea_max_response_time_ms = 10, ea_p95_response_time_ms = 10, ea_p99_response_time_ms = 10,
       ea_throughput_rps = 1, ea_error_rate = 1\<rparr>)
     \<in> set (report_entries (fst (generate_scalability_report 101 ''2026-01-01T00:00:00''
        (run_events [Reset 10 100, Record ''a'' 0.01 200, Record ''b'' 0.02 500]) None))) \<and>
   real (failed_in_run [Reset 10 100, Record ''a'' 0.01 200, Record ''b'' 0.02 500]) /
   real (length (bucket (run_events [Reset 10 100, Record ''a'' 0.01 200, Record ''b'' 0.02 500]) ''a''))
     = 1"
proof -
  have m: "(''a'', \<lparr>ea_total_requests = 1, ea_mean_response_time_ms = 10,
       ea_median_response_time_ms = 10, ea_std_dev_ms = 0, ea_min_response_time_ms = 10,
       ea_max_response_time_ms = 10, ea_p95_response_time_ms = 10, ea_p99_response_time_ms = 10,
       ea_throughput_rps = 1, ea_error_rate = 1\<rparr>)
     \<in> set (report_entries (fst (generate_scalability_report 101 ''2026-01-01T00:00:00''
        (run_events [Reset 10 100, Record ''a'' 0.01 200, Record ''b'' 0.02 500]) None)))"
    unfolding two_endpoint_run
    by (simp add: report_entries_closed analyse_endpoint_single elapsed_since_def)
  have f: "failed_in_run [Reset 10 100, Record ''a'' 0.01 200, Record ''b'' 0.02 500] = 1"
    by (simp add: failed_in_run_def)
  show ?thesis
    using m error_rate_uses_run_wide_failures [OF m] by (simp add: f)
qed

text \<open>
  Claim C1. The error rate of an endpoint in a generated report is to be the number
  of failed samples in that endpoint's bucket divided by the number of samples in
  it. The code divides the failed samples of all endpoints by the size of one
  bucket: after a start, a successful request to endpoint \<open>a\<close> and a failed request
  to endpoint \<open>b\<close>, the entry of \<open>a\<close> reports the error rate 1, while no failed
  sample is in the bucket of \<open>a\<close> and the rate of the claim is 0.
\<close>

theorem error_rate_not_per_bucket:
  "map_option ea_error_rate
     (map_of (report_entries (fst (generate_scalability_report 101 ''2026-01-01T00:00:00''
        (run_events [Reset 10 100, Record ''a'' 0.01 200, Record ''b'' 0.02 500]) None))) ''a'')
     = Some 1 \<and>
   real (failed_in_bucket ''a'' [Reset 10 100, Record ''a'' 0.01 200, Record ''b'' 0.02 500]) /
   real (length (bucket (run_events [Reset 10 100, Record ''a'' 0.01 200, Record ''b'' 0.02 500]) ''a''))
     = 0"
  unfolding two_endpoint_run
  by (simp add: report_entries_closed analyse_endpoint_single failed_in_bucket_def bucket_def)

section \<open>Percentiles\<close>

lemma spec_rank_index_5: "spec_rank_index 5 0.95 = 4 \<and> spec_rank_index 5 0.99 = 4"
  by (simp add: spec_rank_index_def)

lemma sort_example: "sort [0.01, 0.02, 0.03, 0.04, 0.05 :: real] = [0.01, 0.02, 0.03, 0.04, 0.05]"
  by simp

text \<open>
  Claim C7. For a non-empty duration sequence of length \<open>n\<close>, the server's two
  reducers and the client's reducer all return without raising; their p95 and p99
  are the elements of the sorted sequence at the indices \<open>floor(n * 0.95)\<close> and
  \<open>floor(n * 0.99)\<close> clamped to \<open>n - 1\<close> (in milliseconds where the code multiplies by
  1000). The clamp never bites, the p99 index is at least the p95 index and below
  \<open>n\<close>, both values are at most the reported maximum, and for a single duration
  both percentiles are that duration.
\<close>

theorem percentiles_are_nearest_rank:
  assumes "times' \<noteq> []" and "lt_response_times self = times'"
  shows
   "(\<exists>m. endpoint_stats times' = Some m \<and>
         em_p95_response_time m = sort times' ! spec_rank_index (length times') 0.95 \<and>
         em_p99_response_time m = sort times' ! spec_rank_index (length times') 0.99 \<and>
         em_p95_response_time m \<le> em_max_response_time m \<and>
         em_p99_response_time m \<le> em_max_response_time m) \<and>
    (\<exists>a. analyse_endpoint s elapsed times' = Some a \<and>
         ea_p95_response_time_ms a = sort times' ! spec_rank_index (length times') 0.95 * 1000 \<and>
         ea_p99_response_time_ms a = sort times' ! spec_rank_index (length times') 0.99 * 1000 \<and>
         ea_p95_response_time_ms a \<le> ea_max_response_time_ms a \<and>
         ea_p99_response_time_ms a \<le> ea_max_response_time_ms a) \<and>
    (\<exists>st. run_test_stats total_time self = Some (Some st) \<and>
         st_p95_response_time_ms st = sort times' ! spec_rank_index (length times') 0.95 * 1000 \<and>
         st_p99_response_time_ms st = sort times' ! spec_rank_index (length times') 0.99 * 1000 \<and>
         st_p95_response_time_ms st \<le> st_max_response_time_ms st \<and>
         st_p99_response_time_ms st \<le> st_max_response_time_ms st) \<and>
    spec_rank_index (length times') 0.95 = nat \<lfloor>real (length times') * 0.95\<rfloor> \<and>
    spec_rank_index (length times') 0.99 = nat \<lfloor>real (length times') * 0.99\<rfloor> \<and>
    spec_rank_index (length times') 0.95 \<le> spec_rank_index (length times') 0.99 \<and>
    spec_rank_index (length times') 0.99 < length times' \<and>
    (\<forall>x. times' = [x] \<longrightarrow>
         sort times' ! spec_rank_index (length times') 0.95 = x \<and>
         sort times' ! spec_rank_index (length times') 0.99 = x)"
proof -
  have n: "0 < length times'" using assms(1) by simp
  have lt95: "spec_rank_index (length times') 0.95 < length times'"
    and lt99: "spec_rank_index (length times') 0.99 < length times'"
    using n by (rule spec_rank_index_lt)+
  have le95: "sort times' ! spec_rank_index (length times') 0.95 \<le> Max (set times')"
    using lt95 by (rule sorted_nth_le_Max)
  have le99: "sort times' ! spec_rank_index (length times') 0.99 \<le> Max (set times')"
    using lt99 by (rule sorted_nth_le_Max)
  have xs: "lt_response_times self \<noteq> []" using assms by simp
  have A: "\<exists>m. endpoint_stats times' = Some m \<and>
         em_p95_response_time m = sort times' ! spec_rank_index (length times') 0.95 \<and>
         em_p99_response_time m = sort times' ! spec_rank_index (length times') 0.99 \<and>
         em_p95_response_time m \<le> em_max_response_time m \<and>
         em_p99_response_time m \<le> em_max_response_time m"
    unfolding endpoint_stats_closed [OF assms(1)] using le95 le99 by simp
  have B: "\<exists>a. analyse_endpoint s elapsed times' = Some a \<and>
         ea_p95_response_time_ms a = sort times' ! spec_rank_index (length times') 0.95 * 1000 \<and>
         ea_p99_response_time_ms a = sort times' ! spec_rank_index (length times') 0.99 * 1000 \<and>
         ea_p95_response_time_ms a \<le> ea_max_response_time_ms a \<and>
         ea_p99_response_time_ms a \<le> ea_max_response_time_ms a"
    unfolding analyse_endpoint_closed [OF assms(1)] using le95 le99 by simp
  have C: "\<exists>st. run_test_stats total_time self = Some (Some st) \<and>
         st_p95_response_time_ms st = sort times' ! spec_rank_index (length times') 0.95 * 1000 \<and>
         st_p99_response_time_ms st = sort times' ! spec_rank_index (length times') 0.99 * 1000 \<and>
         st_p95_response_time_ms st \<le> st_max_response_time_ms st \<and>
         st_p99_response_time_ms st \<le> st_max_response_time_ms st"
    unfolding run_test_stats_closed [OF xs] using le95 le99 assms(2) by simp
  have D: "spec_rank_index (length times') 0.95 = nat \<lfloor>real (length times') * 0.95\<rfloor>"
    using n by (intro spec_rank_index_floor) simp_all
  have E: "spec_rank_index (length times') 0.99 = nat \<lfloor>real (length times') * 0.99\<rfloor>"
    using n by (intro spec_rank_index_floor) simp_all
  have F: "spec_rank_index (length times') 0.95 \<le> spec_rank_index (length times') 0.99"
    by (intro spec_rank_index_mono) simp_all
  have G: "\<forall>x. times' = [x] \<longrightarrow>
         sort times' ! spec_rank_index (length times') 0.95 = x \<and>
         sort times' ! spec_rank_index (length times') 0.99 = x"
    by (simp add: spec_rank_index_single)
  from A B C D E F lt99 G show ?thesis by (intro conjI)
qed

theorem percentiles_are_nearest_rank_witness:
  "map_option em_p95_response_time (endpoint_stats [0.01, 0.02, 0.03, 0.04, 0.05]) = Some 0.05 \<and>
   map_option em_p99_response_time (endpoint_stats [0.01, 0.02, 0.03, 0.04, 0.05]) = Some 0.05 \<and>
   spec_rank_index (length [0.01, 0.02, 0.03, 0.04, 0.05 :: real]) 0.95 = 4 \<and>
   spec_rank_index (length [0.01, 0.02, 0.03, 0.04, 0.05 :: real]) 0.99 = 4"
  using percentiles_are_nearest_rank
          [of "[0.01, 0.02, 0.03, 0.04, 0.05]"
              "\<lparr>lt_response_times = [0.01, 0.02, 0.03, 0.04, 0.05],
                lt_status_codes = [200, 200, 200, 200, 200], lt_errors = []\<rparr>"
              initial_metrics 1 1]
        spec_rank_index_5 sort_example
  by auto

section \<open>Median\<close>

text \<open>
  Claim C3, as the code has it. For a non-empty duration sequence of length \<open>n\<close>,
  both server reducers report the element at index \<open>n div 2\<close> of the sorted sequence,
  never an interpolated value. The client calls \<open>statistics.median\<close>: for odd \<open>n\<close> that
  is the same element, for even \<open>n\<close> the mean of the elements at \<open>n div 2 - 1\<close> and
  \<open>n div 2\<close>.
\<close>

theorem median_server_nearest_rank_client_midpoint:
  assumes "times' \<noteq> []" and "lt_response_times self = times'"
  shows
   "(\<exists>m. endpoint_stats times' = Some m \<and> em_median_response_time m = spec_median times') \<and>
    (\<exists>a. analyse_endpoint s elapsed times' = Some a \<and>
         ea_median_response_time_ms a = spec_median times' * 1000) \<and>
    (\<exists>st. run_test_stats total_time self = Some (Some st) \<and>
         st_median_response_time_ms st =
           (if odd (length times') then spec_median times'
            else (sort times' ! (length times' div 2 - 1) +
                  sort times' ! (length times' div 2)) / 2) * 1000)"
proof -
  have xs: "lt_response_times self \<noteq> []" using assms by simp
  have A: "\<exists>m. endpoint_stats times' = Some m \<and> em_median_response_time m = spec_median times'"
    unfolding endpoint_stats_closed [OF assms(1)] by (simp add: spec_median_def)
  have B: "\<exists>a. analyse_endpoint s elapsed times' = Some a \<and>
         ea_median_response_time_ms a = spec_median times' * 1000"
    unfolding analyse_endpoint_closed [OF assms(1)] by (simp add: spec_median_def)
  have C: "\<exists>st. run_test_stats total_time self = Some (Some st) \<and>
         st_median_response_time_ms st =
           (if odd (length times') then spec_median times'
            else (sort times' ! (length times' div 2 - 1) +
                  sort times' ! (length times' div 2)) / 2) * 1000"
    unfolding run_test_stats_closed [OF xs] using assms(2) by (simp add: spec_median_def)
  from A B C show ?thesis by (intro conjI)
qed

theorem median_server_nearest_rank_client_midpoint_witness:
  "map_option em_median_response_time (endpoint_stats [0.02, 0.01]) = Some 0.02 \<and>
   map_option ea_median_response_time_ms (analyse_endpoint initial_metrics 1 [0.02, 0.01]) = Some 20 \<and>
   map_option (map_option st_median_response_time_ms)
     (run_test_stats 1 \<lparr>lt_response_times = [0.02, 0.01], lt_status_codes = [200, 200],
                         lt_errors = []\<rparr>) = Some (Some 15)"
proof -
  have m: "spec_median [0.02, 0.01] = 0.02"
    by (simp add: spec_median_def)
  have srt: "sort [0.02, 0.01 :: real] = [0.01, 0.02]" by simp
  show ?thesis
    using median_server_nearest_rank_client_midpoint
            [of "[0.02, 0.01]"
                "\<lparr>lt_response_times = [0.02, 0.01], lt_status_codes = [200, 200], lt_errors = []\<rparr>"
                initial_metrics 1 1]
    unfolding m srt
    by auto
qed

text \<open>
  Claim C3 as stated fails for the client. For the durations 10 ms and 20 ms the
  client reports the median 15 ms, the element at index \<open>n div 2\<close> is 20 ms.
\<close>

theorem client_median_is_interpolated:
  "map_option (map_option st_median_response_time_ms)
     (run_test_stats 1 \<lparr>lt_response_times = [0.01, 0.02], lt_status_codes = [200, 200],
                         lt_errors = []\<rparr>) = Some (Some 15) \<and>
   spec_median [0.01, 0.02] * 1000 = 20"
  by (simp add: run_test_stats_closed spec_median_def)

section \<open>Standard deviation\<close>

lemma example_population: "spec_population_std_dev [0.01, 0.02, 0.03, 0.04, 0.05] = sqrt (1 / 5000)"
  by (simp add: spec_population_std_dev_def power2_eq_square)

lemma example_population_bounds:
  "14.14 < sqrt (1 / 5000) * 1000 \<and> sqrt (1 / 5000) * 1000 < 14.15"
proof -
  have "(0.01414 :: real)\<^sup>2 < 1 / 5000" by (simp add: power2_eq_square)
  then have a: "0.01414 < sqrt (1 / 5000)" by (rule real_less_rsqrt)
  have "(1 / 5000 :: real) < 0.01415\<^sup>2" by (simp add: power2_eq_square)
  then have b: "sqrt (1 / 5000) < 0.01415" by (intro real_less_lsqrt) simp_all
  from a b show ?thesis by simp
qed

lemma example_sample_bounds:
  "15.81 < sqrt (1 / 4000) * 1000 \<and> sqrt (1 / 4000) * 1000 < 15.82"
proof -
  have "(0.01581 :: real)\<^sup>2 < 1 / 4000" by (simp add: power2_eq_square)
  then have a: "0.01581 < sqrt (1 / 4000)" by (rule real_less_rsqrt)
  have "(1 / 4000 :: real) < 0.01582\<^sup>2" by (simp add: power2_eq_square)
  then have b: "sqrt (1 / 4000) < 0.01582" by (intro real_less_lsqrt) simp_all
  from a b show ?thesis by simp
qed

lemma example_client_std_dev:
  "map_option (map_option st_std_dev_ms)
     (run_test_stats 1 \<lparr>lt_response_times = [0.01, 0.02, 0.03, 0.04, 0.05],
                lt_status_codes = [200, 200, 200, 200, 200], lt_errors = []\<rparr>)
   = Some (Some (sqrt (1 / 4000) * 1000))"
  by (simp add: run_test_stats_closed power2_eq_square)

text \<open>
  Claim C4, as the code has it. For a non-empty duration sequence, the report of the
  server gives the population standard deviation (the squared deviations divided by
  \<open>n\<close>), which for the durations 10, 20, 30, 40, 50 ms lies between 14.14 and
  14.15 ms. The client calls \<open>statistics.stdev\<close>: for \<open>n > 1\<close> the sample standard
  deviation (divided by \<open>n - 1\<close>), and 0 for a single duration.
\<close>

theorem std_dev_server_population_client_sample:
  assumes "times' \<noteq> []" and "lt_response_times self = times'"
  shows
   "(\<exists>a. analyse_endpoint s elapsed times' = Some a \<and>
         ea_std_dev_ms a = spec_population_std_dev times' * 1000) \<and>
    (\<exists>st. run_test_stats total_time self = Some (Some st) \<and>
         st_std_dev_ms st =
           (if 1 < length times'
            then sqrt ((\<Sum>x\<leftarrow>times'. (x - sum_list times' / real (length times'))\<^sup>2) /
                       real (length times' - 1)) * 1000
            else 0)) \<and>
    (\<exists>a. analyse_endpoint s elapsed [0.01, 0.02, 0.03, 0.04, 0.05] = Some a \<and>
         14.14 < ea_std_dev_ms a \<and> ea_std_dev_ms a < 14.15)"
proof -
  have xs: "lt_response_times self \<noteq> []" using assms by simp
  have A: "\<exists>a. analyse_endpoint s elapsed times' = Some a \<and>
         ea_std_dev_ms a = spec_population_std_dev times' * 1000"
    unfolding analyse_endpoint_closed [OF assms(1)] by simp
  have B: "\<exists>st. run_test_stats total_time self = Some (Some st) \<and>
         st_std_dev_ms st =
           (if 1 < length times'
            then sqrt ((\<Sum>x\<leftarrow>times'. (x - sum_list times' / real (length times'))\<^sup>2) /
                       real (length times' - 1)) * 1000
            else 0)"
    unfolding run_test_stats_closed [OF xs] using assms(2) by simp
  have ne: "[0.01, 0.02, 0.03, 0.04, 0.05 :: real] \<noteq> []" by simp
  have C: "\<exists>a. analyse_endpoint s elapsed [0.01, 0.02, 0.03, 0.04, 0.05] = Some a \<and>
         14.14 < ea_std_dev_ms a \<and> ea_std_dev_ms a < 14.15"
    unfolding analyse_endpoint_closed [OF ne] example_population
    using example_population_bounds by simp
  from A B C show ?thesis by (intro conjI)
qed

theorem std_dev_server_population_client_sample_witness:
  "map_option ea_std_dev_ms (analyse_endpoint initial_metrics 1 [0.01, 0.03]) = Some 10 \<and>
   map_option (map_option st_std_dev_ms)
     (run_test_stats 1 \<lparr>lt_response_times = [0.01, 0.03], lt_status_codes = [200, 200],
                         lt_errors = []\<rparr>) = Some (Some (sqrt 2 * 10))"
proof -
  have p: "spec_population_std_dev [0.01, 0.03] = 0.01"
    by (simp add: spec_population_std_dev_def power2_eq_square real_sqrt_divide)
  have q: "sqrt ((\<Sum>x\<leftarrow>[0.01, 0.03 :: real]. (x - sum_list [0.01, 0.03] / real (length [0.01, 0.03 :: real]))\<^sup>2) /
             real (length [0.01, 0.03 :: real] - 1)) * 1000 = sqrt 2 * 10"
  proof -
    have "(\<Sum>x\<leftarrow>[0.01, 0.03 :: real]. (x - sum_list [0.01, 0.03] / real (length [0.01, 0.03 :: real]))\<^sup>2) /
             real (length [0.01, 0.03 :: real] - 1) = 2 * (1 / 100)\<^sup>2"
      by (simp add: power2_eq_square)
    then show ?thesis by (simp only: real_sqrt_mult real_sqrt_abs)
  qed
  show ?thesis
    using std_dev_server_population_client_sample
            [of "[0.01, 0.03]"
                "\<lparr>lt_response_times = [0.01, 0.03], lt_status_codes = [200, 200], lt_errors = []\<rparr>"
                initial_metrics 1 1]
    unfolding p q
    by auto
qed

text \<open>
  Claim C4 as stated fails for the client. For the durations 10, 20, 30, 40, 50 ms the
  client reports more than 15.81 ms, the population standard deviation is below
  14.15 ms.
\<close>

theorem client_std_dev_is_not_population:
  "map_option (map_option st_std_dev_ms)
     (run_test_stats 1 \<lparr>lt_response_times = [0.01, 0.02, 0.03, 0.04, 0.05],
                lt_status_codes = [200, 200, 200, 200, 200], lt_errors = []\<rparr>)
     = Some (Some (sqrt (1 / 4000) * 1000)) \<and>
   spec_population_std_dev [0.01, 0.02, 0.03, 0.04, 0.05] * 1000 = sqrt (1 / 5000) * 1000 \<and>
   sqrt (1 / 5000) * 1000 < 14.15 \<and>
   15.81 < sqrt (1 / 4000) * 1000"
  using example_client_std_dev example_population example_population_bounds example_sample_bounds
  by simp

section \<open>Client: a request whose network call fails\<close>

text \<open>
  When the network call of a request raises, \<open>make_request\<close> takes the elapsed time
  all the same, appends one entry with the request id, the error text and the elapsed
  time to \<open>self.errors\<close>, and returns a result with status 0, \<open>success\<close> false and
  the error text, which \<open>user_simulation\<close> drops. The durations and status codes
  that the final statistics are computed from are left as they were, so the
  statistics of the run do not change.
\<close>

lemma failed_call_is_logged_not_sampled:
  "lt_response_times (fst (make_request request_id (Raised e) elapsed_time self)) =
     lt_response_times self \<and>
   lt_status_codes (fst (make_request request_id (Raised e) elapsed_time self)) =
     lt_status_codes self \<and>
   lt_errors (fst (make_request request_id (Raised e) elapsed_time self)) =
     lt_errors self @
       [\<lparr>err_request_id = request_id, err_status_code = None, err_error = Some e,
         err_response_time = elapsed_time\<rparr>] \<and>
   snd (make_request request_id (Raised e) elapsed_time self) =
     \<lparr>rr_request_id = request_id, rr_status_code = 0, rr_response_time = elapsed_time,
      rr_success = False, rr_error = Some e\<rparr> \<and>
   run_test_stats total_time (fst (make_request request_id (Raised e) elapsed_time self)) =
     run_test_stats total_time self"
  by (simp add: make_request_def run_test_stats_def)

text \<open>
  Claim C2. A request whose network call fails is to be appended to the sample set
  as a failed sample with status 0 and counted in \<open>total_requests\<close> and
  \<open>failed_requests\<close> of the final statistics. The code builds that failed result but
  stores none of it among the samples: after one answered request and one whose call
  timed out, the statistics count one request and no failed one, and the sample set
  holds one duration; when the only request fails, \<open>run_test\<close> returns no
  statistics at all.
\<close>

theorem failed_call_not_counted:
  "map_option (map_option st_total_requests)
     (run_test_stats 1
        (run_requests [(0, Responded 200, 0.01), (1, Raised ''timed out'', 10)] new_load_tester))
     = Some (Some 1) \<and>
   map_option (map_option st_failed_requests)
     (run_test_stats 1
        (run_requests [(0, Responded 200, 0.01), (1, Raised ''timed out'', 10)] new_load_tester))
     = Some (Some 0) \<and>
   lt_response_times
     (run_requests [(0, Responded 200, 0.01), (1, Raised ''timed out'', 10)] new_load_tester)
     = [0.01] \<and>
   run_test_stats 1 (run_requests [(0, Raised ''timed out'', 10)] new_load_tester) = Some None"
proof -
  have r: "run_requests [(0, Responded 200, 0.01), (1, Raised ''timed out'', 10)] new_load_tester =
     \<lparr>lt_response_times = [0.01], lt_status_codes = [200],
      lt_errors = [\<lparr>err_request_id = 1, err_status_code = None, err_error = Some ''timed out'',
                    err_response_time = 10\<rparr>]\<rparr>"
    by (simp add: make_request_def new_load_tester_def)
  have q: "run_requests [(0, Raised ''timed out'', 10)] new_load_tester =
     \<lparr>lt_response_times = [], lt_status_codes = [],
      lt_errors = [\<lparr>err_request_id = 0, err_status_code = None, err_error = Some ''timed out'',
                    err_response_time = 10\<rparr>]\<rparr>"
    by (simp add: make_request_def new_load_tester_def)
  have e: "run_test_stats 1 \<lparr>lt_response_times = [], lt_status_codes = [],
      lt_errors = [\<lparr>err_request_id = 0, err_status_code = None, err_error = Some ''timed out'',
                    err_response_time = 10\<rparr>]\<rparr> = Some None"
    by (simp add: run_test_stats_def)
  show ?thesis unfolding r q e by (simp add: run_test_stats_closed)
qed

section \<open>Stopping a test\<close>

lemma stop_twice: "stop_stress_test (fst (stop_stress_test s)) = stop_stress_test s"
  by (simp add: stop_stress_test_def)

lemma stop_inactive: "\<not> test_active s \<Longrightarrow> fst (stop_stress_test s) = s"
  by (simp add: stop_stress_test_def)

lemma stop_keeps_samples:
  "response_times (fst (stop_stress_test s)) = response_times s \<and>
   total_requests (fst (stop_stress_test s)) = total_requests s \<and>
   failed_requests (fst (stop_stress_test s)) = failed_requests s \<and>
   concurrent_requests (fst (stop_stress_test s)) = concurrent_requests s \<and>
   start_time (fst (stop_stress_test s)) = start_time s"
  by (simp add: stop_stress_test_def)

lemma analyse_endpoint_clock:
  assumes "ts \<noteq> []"
  shows "(the (analyse_endpoint s el1 ts))\<lparr>ea_throughput_rps := 0\<rparr> =
         (the (analyse_endpoint s el2 ts))\<lparr>ea_throughput_rps := 0\<rparr>"
  by (simp add: analyse_endpoint_closed [OF assms])

lemma report_clock_fields_only:
  "without_clock_fields (fst (generate_scalability_report now1 stamp1 s f1)) =
   without_clock_fields (fst (generate_scalability_report now2 stamp2 s f2))"
proof (cases "response_times s = []")
  case True
  then show ?thesis by (simp add: report_no_buckets)
next
  case False
  have "map (\<lambda>em. (fst em, (snd em)\<lparr>ea_throughput_rps := 0\<rparr>))
          (map (\<lambda>b. (fst b, the (analyse_endpoint s (elapsed_since (start_time s) now1) (snd b))))
             (filter (\<lambda>b. snd b \<noteq> []) (response_times s))) =
        map (\<lambda>em. (fst em, (snd em)\<lparr>ea_throughput_rps := 0\<rparr>))
          (map (\<lambda>b. (fst b, the (analyse_endpoint s (elapsed_since (start_time s) now2) (snd b))))
             (filter (\<lambda>b. snd b \<noteq> []) (response_times s)))"
    by (simp add: analyse_endpoint_clock cong: map_cong)
  with False show ?thesis
    by (simp add: generate_scalability_report_def without_clock_fields_def analyse_loop_closed
          Let_def)
qed

text \<open>
  Claim C5, as the code has it. A second stop returns the same response and leaves
  the same store as the first, and a stop while no test is active leaves the store as
  it was. So a report generated after the second stop equals the one generated after
  the first when both read the same clock and timestamp; generated at different
  moments, the two reports agree in every field but the three computed from the
  clock at generation: timestamp, elapsed time and throughput.
\<close>

theorem stop_twice_same_store_same_report:
  "stop_stress_test (fst (stop_stress_test s)) = stop_stress_test s \<and>
   (\<not> test_active s \<longrightarrow> fst (stop_stress_test s) = s) \<and>
   generate_scalability_report now stamp (fst (stop_stress_test (fst (stop_stress_test s)))) f =
     generate_scalability_report now stamp (fst (stop_stress_test s)) f \<and>
   without_clock_fields
     (fst (generate_scalability_report now2 stamp2
             (fst (stop_stress_test (fst (stop_stress_test s)))) f2)) =
   without_clock_fields
     (fst (generate_scalability_report now1 stamp1 (fst (stop_stress_test s)) f1))"
  using report_clock_fields_only [of now2 stamp2 "fst (stop_stress_test s)" f2 now1 stamp1 f1]
  by (simp add: stop_twice stop_inactive)

theorem stop_twice_same_store_same_report_witness:
  "\<not> test_active (run_events [Reset 10 100, Record ''a'' 0.01 200, Freeze]) \<and>
   fst (stop_stress_test (run_events [Reset 10 100, Record ''a'' 0.01 200, Freeze])) =
     run_events [Reset 10 100, Record ''a'' 0.01 200, Freeze] \<and>
   generate_scalability_report 101 ''2026-01-01T00:00:00''
     (fst (stop_stress_test (fst (stop_stress_test
        (run_events [Reset 10 100, Record ''a'' 0.01 200, Freeze]))))) None =
   generate_scalability_report 101 ''2026-01-01T00:00:00''
     (fst (stop_stress_test (run_events [Reset 10 100, Record ''a'' 0.01 200, Freeze]))) None"
proof -
  have a: "\<not> test_active (run_events [Reset 10 100, Record ''a'' 0.01 200, Freeze])"
    by (simp add: run_events_def initial_metrics_def record_sample_def)
  show ?thesis
    using a stop_twice_same_store_same_report
            [of "run_events [Reset 10 100, Record ''a'' 0.01 200, Freeze]"
                101 "''2026-01-01T00:00:00''" None 101 "''2026-01-01T00:00:00''" None
                101 "''2026-01-01T00:00:00''" None]
    by simp
qed

lemma one_endpoint_run:
  "run_events [Reset 10 100, Record ''a'' 0.01 200] =
     \<lparr>response_times = [(''a'', [0.01])], concurrent_requests = 10,
      total_requests = 1, failed_requests = 0, start_time = Some 100, test_active = True\<rparr>"
  by (simp add: run_events_def initial_metrics_def record_sample_def)

lemma stopped_report_at_101:
  "fst (generate_scalability_report 101 ''2026-01-01T00:00:00''
          (fst (stop_stress_test (run_events [Reset 10 100, Record ''a'' 0.01 200]))) None) =
     (ReportBody
        \<lparr>rep_timestamp = ''2026-01-01T00:00:00'',
         rep_test_summary =
           \<lparr>ts_concurrent_users = 10, ts_total_requests = 1, ts_failed_requests = 0,
            ts_success_rate = 1, ts_elapsed_time = 1\<rparr>,
         rep_endpoint_analysis =
           [(''a'', \<lparr>ea_total_requests = 1, ea_mean_response_time_ms = 10,
               ea_median_response_time_ms = 10, ea_std_dev_ms = 0, ea_min_response_time_ms = 10,
               ea_max_response_time_ms = 10, ea_p95_response_time_ms = 10,
               ea_p99_response_time_ms = 10, ea_throughput_rps = 1, ea_error_rate = 0\<rparr>)]\<rparr>,
      200)"
  unfolding one_endpoint_run
  by (simp add: generate_scalability_report_def stop_stress_test_def analyse_endpoint_single
        elapsed_since_def success_rate_of_def Let_def)

lemma stopped_twice_report_at_102:
  "fst (generate_scalability_report 102 ''2026-01-01T00:00:00''
          (fst (stop_stress_test
             (fst (stop_stress_test (run_events [Reset 10 100, Record ''a'' 0.01 200])))))
          (snd (generate_scalability_report 101 ''2026-01-01T00:00:00''
             (fst (stop_stress_test (run_events [Reset 10 100, Record ''a'' 0.01 200]))) None))) =
     (ReportBody
        \<lparr>rep_timestamp = ''2026-01-01T00:00:00'',
         rep_test_summary =
           \<lparr>ts_concurrent_users = 10, ts_total_requests = 1, ts_failed_requests = 0,
            ts_success_rate = 1, ts_elapsed_time = 2\<rparr>,
         rep_endpoint_analysis =
           [(''a'', \<lparr>ea_total_requests = 1, ea_mean_response_time_ms = 10,
               ea_median_response_time_ms = 10, ea_std_dev_ms = 0, ea_min_response_time_ms = 10,
               ea_max_response_time_ms = 10, ea_p95_response_time_ms = 10,
               ea_p99_response_time_ms = 10, ea_throughput_rps = 1 / 2, ea_error_rate = 0\<rparr>)]\<rparr>,
      200)"
  unfolding one_endpoint_run
  by (simp add: generate_scalability_report_def stop_stress_test_def analyse_endpoint_single
        elapsed_since_def success_rate_of_def Let_def)

text \<open>
  Claim C5 as stated fails. The test started at clock reading 100 and recorded one
  sample. A report generated at 101 after the first stop has elapsed time 1 and
  throughput 1; the report generated at 102 after the second stop has elapsed time 2
  and throughput 1/2.
\<close>

theorem reports_after_two_stops_differ:
  "fst (generate_scalability_report 101 ''2026-01-01T00:00:00''
          (fst (stop_stress_test (run_events [Reset 10 100, Record ''a'' 0.01 200]))) None) \<noteq>
   fst (generate_scalability_report 102 ''2026-01-01T00:00:00''
          (fst (stop_stress_test
             (fst (stop_stress_test (run_events [Reset 10 100, Record ''a'' 0.01 200])))))
          (snd (generate_scalability_report 101 ''2026-01-01T00:00:00''
             (fst (stop_stress_test (run_events [Reset 10 100, Record ''a'' 0.01 200]))) None)))"
  unfolding stopped_report_at_101 stopped_twice_report_at_102 by simp

end
